theory Spec2Isabelle
  imports Main "HOL-Library.AList"
begin

section \<open>Data of the ORTTrainer front end\<close>

text \<open>
  The development follows \<^verbatim>\<open>orttraining/python/training/orttrainer.py\<close>.
  Python attributes whose names end in an underscore are written with a prefix
  instead: \<^verbatim>\<open>name_\<close>, \<^verbatim>\<open>shape_\<close>, \<^verbatim>\<open>dtype_\<close> are \<open>desc_name\<close>,
  \<open>desc_shape\<close>, \<open>desc_dtype\<close>, and \<^verbatim>\<open>inputs_\<close>, \<^verbatim>\<open>outputs_\<close> are
  \<open>md_inputs\<close>, \<open>md_outputs\<close>.

  A Python \<^verbatim>\<open>dict\<close> is an association list in insertion order: \<open>AList.update\<close>
  is \<^verbatim>\<open>d[k] = v\<close> and \<open>map_of\<close> is the lookup.
\<close>

type_synonym dtype = string

datatype device = CPU | CUDA nat

record tensor =
  t_data :: "int list"
  t_dtype :: dtype
  t_device :: device

text \<open>\<^verbatim>\<open>t.to(device=device)\<close>\<close>

definition to_device :: "device \<Rightarrow> tensor \<Rightarrow> tensor" where
  "to_device dev t = t\<lparr>t_device := dev\<rparr>"

text \<open>One element of a shape: an \<^verbatim>\<open>int\<close> (static) or a \<^verbatim>\<open>str\<close> (dynamic).\<close>

datatype axis = IntAxis int | StrAxis string

fun is_str :: "axis \<Rightarrow> bool" where
  "is_str (StrAxis s) = True"
| "is_str (IntAxis n) = False"

record io_desc =
  desc_name :: string
  desc_shape :: "axis list"
  desc_dtype :: "dtype option"

record model_desc =
  md_inputs :: "io_desc list"
  md_outputs :: "io_desc list"

datatype error =
    AssertionError string
  | ValueError string
  | RuntimeError string
  | KeyError string
  | AttributeError string
  | NameError string
  | TypeError string
  | BackendError string

section \<open>Dynamic axes (lines 170--186)\<close>

text \<open>
  \<^verbatim>\<open>
  symbolic_axis = {}
  for i, axis in enumerate(input.shape_):
      if isinstance(axis, str):
          symbolic_axis[i] = axis
  \<close>
\<close>

fun symbolic_axis_loop :: "nat \<Rightarrow> axis list \<Rightarrow> (nat \<times> string) list \<Rightarrow> (nat \<times> string) list" where
  "symbolic_axis_loop i [] symbolic_axis = symbolic_axis"
| "symbolic_axis_loop i (StrAxis s # rest) symbolic_axis =
     symbolic_axis_loop (Suc i) rest (AList.update i s symbolic_axis)"
| "symbolic_axis_loop i (IntAxis n # rest) symbolic_axis =
     symbolic_axis_loop (Suc i) rest symbolic_axis"

definition symbolic_axis_of :: "axis list \<Rightarrow> (nat \<times> string) list" where
  "symbolic_axis_of shape = symbolic_axis_loop 0 shape []"

text \<open>
  \<^verbatim>\<open>
  for input in model_desc.inputs_:
      symbolic_axis = ...
      if len(symbolic_axis):
          dynamic_axes[input.name_] = symbolic_axis
  \<close>
\<close>

fun dynamic_axes_loop ::
  "io_desc list \<Rightarrow> (string \<times> (nat \<times> string) list) list \<Rightarrow> (string \<times> (nat \<times> string) list) list" where
  "dynamic_axes_loop [] dynamic_axes = dynamic_axes"
| "dynamic_axes_loop (d # ds) dynamic_axes =
     (let symbolic_axis = symbolic_axis_of (desc_shape d)
      in dynamic_axes_loop ds
           (if length symbolic_axis \<noteq> 0
            then AList.update (desc_name d) symbolic_axis dynamic_axes
            else dynamic_axes))"

text \<open>The loop over the inputs, then the same loop over the outputs, on one dict.\<close>

definition dynamic_axes_of :: "model_desc \<Rightarrow> (string \<times> (nat \<times> string) list) list" where
  "dynamic_axes_of md = dynamic_axes_loop (md_outputs md) (dynamic_axes_loop (md_inputs md) [])"

section \<open>Sample inputs (lines 191--198)\<close>

text \<open>
  What the caller passes as \<^verbatim>\<open>inputs\<close>: a tensor, a dict of tensors by name, a list or a
  tuple of tensors, or any other object.
\<close>

datatype py_inputs =
    InTensor tensor
  | InDict "(string \<times> tensor) list"
  | InList "tensor list"
  | InTuple "tensor list"
  | InOther

definition unexpected_input_type :: string where
  "unexpected_input_type =
     ''Unexpected input type. Only torch.Tensor, or dict/list/tuple of torch.Tensor is supported.''"

text \<open>\<^verbatim>\<open>if isinstance(inputs, torch.Tensor): inputs = [inputs]\<close>\<close>

fun coerce_tensor :: "py_inputs \<Rightarrow> py_inputs" where
  "coerce_tensor (InTensor t) = InList [t]"
| "coerce_tensor inputs = inputs"

text \<open>
  \<^verbatim>\<open>[inputs[k.name_].to(device=device) for k in model_desc.inputs_]\<close>: a name that is
  not a key of the dict raises \<^verbatim>\<open>KeyError\<close>.
\<close>

fun lookup_samples :: "(string \<times> tensor) list \<Rightarrow> device \<Rightarrow> io_desc list \<Rightarrow> error + tensor list" where
  "lookup_samples inputs dev [] = Inr []"
| "lookup_samples inputs dev (k # ks) =
     (case map_of inputs (desc_name k) of
        None \<Rightarrow> Inl (KeyError (desc_name k))
      | Some t \<Rightarrow>
          (case lookup_samples inputs dev ks of
             Inl e \<Rightarrow> Inl e
           | Inr ts \<Rightarrow> Inr (to_device dev t # ts)))"

text \<open>
  \<^verbatim>\<open>[input.to(device=device) for i, input in enumerate(inputs) if i < len(model_desc.inputs_)]\<close>
\<close>

definition truncate_samples :: "tensor list \<Rightarrow> device \<Rightarrow> nat \<Rightarrow> tensor list" where
  "truncate_samples inputs dev n =
     map (\<lambda>(i, input). to_device dev input) (filter (\<lambda>(i, input). i < n) (enumerate 0 inputs))"

definition gather_sample_inputs :: "model_desc \<Rightarrow> device \<Rightarrow> py_inputs \<Rightarrow> error + tensor list" where
  "gather_sample_inputs md dev inputs =
     (case coerce_tensor inputs of
        InDict d \<Rightarrow> lookup_samples d dev (md_inputs md)
      | InList xs \<Rightarrow> Inr (truncate_samples xs dev (length (md_inputs md)))
      | InTuple xs \<Rightarrow> Inr (truncate_samples xs dev (length (md_inputs md)))
      | InTensor t \<Rightarrow> Inl (RuntimeError unexpected_input_type)
      | InOther \<Rightarrow> Inl (RuntimeError unexpected_input_type))"

section \<open>Sample outputs and their dtypes (lines 205--212)\<close>

datatype py_outputs = OutTensor tensor | OutSeq "tensor list"

text \<open>\<^verbatim>\<open>if isinstance(sample_outputs, torch.Tensor): sample_outputs = [sample_outputs]\<close>\<close>

fun coerce_outputs :: "py_outputs \<Rightarrow> tensor list" where
  "coerce_outputs (OutTensor t) = [t]"
| "coerce_outputs (OutSeq ts) = ts"

text \<open>
  \<^verbatim>\<open>
  for sample_output, output_desc in zip(sample_outputs, model_desc.outputs_):
      output_desc.dtype_ = sample_output.dtype
  \<close>
  The descriptions are updated in place; the function returns the list after the loop.
\<close>

fun record_dtypes :: "tensor list \<Rightarrow> io_desc list \<Rightarrow> io_desc list" where
  "record_dtypes (sample_output # ss) (output_desc # ds) =
     output_desc\<lparr>desc_dtype := Some (t_dtype sample_output)\<rparr> # record_dtypes ss ds"
| "record_dtypes [] ds = ds"
| "record_dtypes ss [] = []"

section \<open>Export options (lines 216--225)\<close>

datatype training_mode = EVAL | PRESERVE | TRAINING

datatype training_arg = TrainingFlag bool | TrainingModeArg training_mode

fun training_enabled :: "training_arg \<Rightarrow> bool" where
  "training_enabled (TrainingFlag b) = b"
| "training_enabled (TrainingModeArg TRAINING) = True"
| "training_enabled (TrainingModeArg m) = False"

text \<open>Versions are compared component by component, as \<^verbatim>\<open>LooseVersion\<close> does.\<close>

fun version_less :: "nat list \<Rightarrow> nat list \<Rightarrow> bool" where
  "version_less [] [] = False"
| "version_less [] (y # ys) = True"
| "version_less (x # xs) [] = False"
| "version_less (x # xs) (y # ys) = (x < y \<or> (x = y \<and> version_less xs ys))"

record export_options =
  opt_training :: training_arg
  opt_enable_onnx_checker :: "bool option"

definition other_export_options :: "nat list \<Rightarrow> export_options" where
  "other_export_options torch_version =
     (let o1 = \<lparr>opt_training = TrainingFlag True, opt_enable_onnx_checker = None\<rparr>;
          o2 = (if version_less [1, 4, 0] torch_version
                then o1\<lparr>opt_enable_onnx_checker := Some False\<rparr> else o1);
          o3 = (if \<not> version_less torch_version [1, 6, 0]
                then o2\<lparr>opt_training := TrainingModeArg TRAINING\<rparr> else o2)
      in o3)"

section \<open>The ONNX model and the PyTorch module\<close>

record tensor_proto =
  tp_name :: string
  tp_raw_data :: "int list"

record node_proto =
  np_op_type :: string
  np_input :: "string list"
  np_output :: "string list"

text \<open>\<^verbatim>\<open>onnx_model.graph.initializer\<close> and \<^verbatim>\<open>onnx_model.graph.node\<close>.\<close>

record onnx_model =
  graph_initializer :: "tensor_proto list"
  graph_node :: "node_proto list"

text \<open>
  A module: what calling it on positional tensors gives, the names of its own
  \<^verbatim>\<open>named_parameters()\<close>, and its attribute \<^verbatim>\<open>model_\<close> where it has one (the wrapper
  built by \<^verbatim>\<open>wrap_for_input_match\<close> holds the user's module there).
\<close>

datatype torch_module =
  Module (forward: "tensor list \<Rightarrow> error + py_outputs")
         (parameter_names: "string list")
         (model_attr: "torch_module option")

text \<open>
  \<^verbatim>\<open>model.model_.named_parameters() if hasattr(model, 'model_') else model.named_parameters()\<close>
\<close>

definition named_parameters :: "torch_module \<Rightarrow> string list" where
  "named_parameters model =
     (case model_attr model of
        Some inner \<Rightarrow> parameter_names inner
      | None \<Rightarrow> parameter_names model)"

text \<open>The arguments of \<^verbatim>\<open>torch.onnx._export\<close> (lines 227--235), the module aside.\<close>

record export_args =
  ex_args :: "tensor list"
  ex_input_names :: "string list"
  ex_output_names :: "string list"
  ex_opset_version :: nat
  ex_dynamic_axes :: "(string \<times> (nat \<times> string) list) list"
  ex_retain_param_name :: bool
  ex_example_outputs :: "tensor list"
  ex_do_constant_folding :: bool
  ex_training :: training_arg
  ex_enable_onnx_checker :: "bool option"

text \<open>
  Python values that reach the trainer as arguments or attributes. A callable that is
  not a module carries what \<^verbatim>\<open>inspect.signature\<close> gives for it: the number of its
  parameters, or the message of the \<^verbatim>\<open>ValueError\<close> raised for a callable without a
  signature (builtin types and functions such as \<^verbatim>\<open>dict\<close> or \<^verbatim>\<open>max\<close>).
\<close>

datatype pyval =
    PyNone
  | PyBool bool
  | PyInt int
  | PyStr string
  | PyCallable "string + nat"
  | PyDict "(string \<times> pyval) list"
  | PyList "pyval list"
  | PyModule torch_module
  | PyOnnx onnx_model
  | PyModelDesc model_desc
  | PyOptimizerConfig string
  | PyOptions "(string \<times> pyval) list"
  | PyDevice device
  | PyInputs py_inputs
  | PyObject string

text \<open>Calls that leave the file, in the order they happen.\<close>

datatype event =
    ModelEval
  | ForwardNoGrad "tensor list"
  | ModelTrain
  | OnnxExport export_args
  | RunPostprocess onnx_model
  | ExtraPostprocess pyval
  | VerifyFullyOptimized pyval
  | ModuleCpu
  | CallConvert

text \<open>
  Names the file uses and does not define; they are parameters of the model.
  \<open>DEFAULT_OPSET_VERSION\<close> is the default of the parameter \<^verbatim>\<open>opset_version\<close>.
  \<open>torch_onnx_export\<close> stands for \<^verbatim>\<open>torch.onnx._export\<close> into a buffer followed by
  \<^verbatim>\<open>onnx.load_model_from_string\<close>. \<open>global_inputs\<close> is the module-level name
  \<^verbatim>\<open>inputs\<close>, if there is one. \<open>validate_model_desc\<close> is the constructor of
  \<^verbatim>\<open>_ORTTrainerModelDesc\<close> and \<open>make_options\<close> that of \<^verbatim>\<open>ORTTrainerOptions\<close>, both
  imported from the package.

  \<open>bound_convert_call\<close> is what the call on line 271 does with its positional and
  keyword arguments: \<^verbatim>\<open>convert_model_loss_fn_to_onnx\<close> is declared in the class without
  a \<^verbatim>\<open>self\<close> parameter and is called through \<^verbatim>\<open>self\<close>, so the receiver takes the place
  of \<^verbatim>\<open>model\<close>. The call raises or returns a value and may call out of the file; every
  statement below holds whatever it does.
\<close>

record env =
  DEFAULT_OPSET_VERSION :: nat
  torch_version :: "nat list"
  wrap_for_input_match :: "torch_module \<Rightarrow> pyval \<Rightarrow> string list \<Rightarrow> torch_module"
  torch_onnx_export :: "torch_module \<Rightarrow> export_args \<Rightarrow> error + onnx_model"
  run_postprocess :: "onnx_model \<Rightarrow> onnx_model"
  global_inputs :: "pyval option"
  validate_model_desc :: "pyval \<Rightarrow> error + model_desc"
  make_options :: "pyval \<Rightarrow> pyval"
  bound_convert_call ::
    "pyval list \<Rightarrow> (string \<times> pyval) list \<Rightarrow> event list \<Rightarrow> (error + pyval) \<times> event list"

section \<open>Initializer names (lines 239--256)\<close>

definition startswith :: "string \<Rightarrow> string \<Rightarrow> bool" where
  "startswith s p = (take (length p) s = p)"

text \<open>
  \<^verbatim>\<open>
  for n in onnx_model.graph.initializer:
      if n.name.startswith('model_.'):
          replace_name_dict[n.name] = n.name[len('model_.'):]
          n.name = replace_name_dict[n.name]
  \<close>
  The last line reads back the value stored on the line before it.
\<close>

fun rename_initializers ::
  "tensor_proto list \<Rightarrow> (string \<times> string) list \<Rightarrow> tensor_proto list \<times> (string \<times> string) list" where
  "rename_initializers [] replace_name_dict = ([], replace_name_dict)"
| "rename_initializers (n # ns) replace_name_dict =
     (if startswith (tp_name n) ''model_.''
      then (let new_name = drop (length ''model_.'') (tp_name n);
                d = AList.update (tp_name n) new_name replace_name_dict;
                r = rename_initializers ns d
            in (n\<lparr>tp_name := new_name\<rparr> # fst r, snd r))
      else (let r = rename_initializers ns replace_name_dict
            in (n # fst r, snd r)))"

text \<open>
  \<^verbatim>\<open>
  for n in onnx_model.graph.node:
      for i, name in enumerate(n.input):
          if name in replace_name_dict:
              n.input[i] = replace_name_dict[name]
  \<close>
  The inner loop assigns by index; the outer loop is written over a list of node
  indices, \<open>[0..<length nodes]\<close> in the source.
\<close>

definition rename_input_at :: "(string \<times> string) list \<Rightarrow> nat \<Rightarrow> string list \<Rightarrow> string list" where
  "rename_input_at replace_name_dict i inp =
     (case map_of replace_name_dict (inp ! i) of
        Some new_name \<Rightarrow> inp[i := new_name]
      | None \<Rightarrow> inp)"

definition rename_node_inputs :: "(string \<times> string) list \<Rightarrow> node_proto \<Rightarrow> node_proto" where
  "rename_node_inputs replace_name_dict n =
     n\<lparr>np_input := fold (rename_input_at replace_name_dict) [0..<length (np_input n)] (np_input n)\<rparr>"

definition visit_nodes :: "(string \<times> string) list \<Rightarrow> nat list \<Rightarrow> node_proto list \<Rightarrow> node_proto list" where
  "visit_nodes replace_name_dict order nodes =
     fold (\<lambda>j ns. ns[j := rename_node_inputs replace_name_dict (ns ! j)]) order nodes"

definition reconcile_names_in_order :: "nat list \<Rightarrow> onnx_model \<Rightarrow> onnx_model" where
  "reconcile_names_in_order order onnx_model =
     (let r = rename_initializers (graph_initializer onnx_model) []
      in onnx_model\<lparr>graph_initializer := fst r,
                     graph_node := visit_nodes (snd r) order (graph_node onnx_model)\<rparr>)"

definition reconcile_names :: "onnx_model \<Rightarrow> onnx_model" where
  "reconcile_names onnx_model =
     reconcile_names_in_order [0..<length (graph_node onnx_model)] onnx_model"

definition initializer_mismatch :: string where
  "initializer_mismatch =
     ''Initializer names do not match between PyTorch model and ONNX model, '' @
     ''please report a bug to ONNX Runtime.''"

text \<open>
  \<^verbatim>\<open>
  assert set([n for n, t in named_parameters]).issubset(
      set([n.name for n in onnx_model.graph.initializer])), "Initializer names do not ..."
  \<close>
\<close>

definition check_initializer_names :: "torch_module \<Rightarrow> onnx_model \<Rightarrow> error + unit" where
  "check_initializer_names model onnx_model =
     (if set (named_parameters model) \<subseteq> set (map tp_name (graph_initializer onnx_model))
      then Inr ()
      else Inl (AssertionError initializer_mismatch))"

text \<open>Lines 239--256 together: rename, then assert.\<close>

definition reconcile :: "torch_module \<Rightarrow> onnx_model \<Rightarrow> error + onnx_model" where
  "reconcile model onnx_model =
     (let renamed = reconcile_names onnx_model
      in case check_initializer_names model renamed of
           Inl e \<Rightarrow> Inl e
         | Inr u \<Rightarrow> Inr renamed)"

section \<open>\<^verbatim>\<open>convert_model_loss_fn_to_onnx\<close> (lines 169--261)\<close>

text \<open>
  The function returns the ONNX model or raises; it also assigns \<^verbatim>\<open>dtype_\<close> in the
  descriptor it was given and calls out of the file. The result is the outcome, the
  descriptor afterwards and the calls made, appended to the trace it started with.
\<close>

definition convert_model_loss_fn_to_onnx ::
  "env \<Rightarrow> torch_module \<Rightarrow> pyval \<Rightarrow> model_desc \<Rightarrow> device \<Rightarrow> py_inputs \<Rightarrow> nat \<Rightarrow> bool \<Rightarrow>
   event list \<Rightarrow> (error + onnx_model) \<times> model_desc \<times> event list" where
  "convert_model_loss_fn_to_onnx e model loss_fn md dev inputs opset_version
     enable_internal_postprocess trace =
     (let dynamic_axes = dynamic_axes_of md;
          input_names = map desc_name (md_inputs md);
          output_names = map desc_name (md_outputs md)
      in case gather_sample_inputs md dev inputs of
           Inl err \<Rightarrow> (Inl err, md, trace)
         | Inr sample_inputs \<Rightarrow>
             (let wrapped = wrap_for_input_match e model loss_fn input_names;
                  trace1 = trace @ [ModelEval, ForwardNoGrad sample_inputs]
              in case forward wrapped sample_inputs of
                   Inl err \<Rightarrow> (Inl err, md, trace1)
                 | Inr out \<Rightarrow>
                     (let sample_outputs = coerce_outputs out;
                          md1 = md\<lparr>md_outputs := record_dtypes sample_outputs (md_outputs md)\<rparr>;
                          other = other_export_options (torch_version e);
                          args = \<lparr>ex_args = sample_inputs,
                                  ex_input_names = input_names,
                                  ex_output_names = output_names,
                                  ex_opset_version = opset_version,
                                  ex_dynamic_axes = dynamic_axes,
                                  ex_retain_param_name = True,
                                  ex_example_outputs = sample_outputs,
                                  ex_do_constant_folding = False,
                                  ex_training = opt_training other,
                                  ex_enable_onnx_checker = opt_enable_onnx_checker other\<rparr>;
                          trace2 = trace1 @ [ModelTrain, OnnxExport args]
                      in case torch_onnx_export e wrapped args of
                           Inl err \<Rightarrow> (Inl err, md1, trace2)
                         | Inr onnx_model \<Rightarrow>
                             (case reconcile wrapped onnx_model of
                                Inl err \<Rightarrow> (Inl err, md1, trace2)
                              | Inr renamed \<Rightarrow>
                                  (if enable_internal_postprocess
                                   then (Inr (run_postprocess e renamed), md1,
                                         trace2 @ [RunPostprocess renamed])
                                   else (Inr renamed, md1, trace2))))))"

section \<open>The trainer object\<close>

text \<open>
  An instance is its attribute dictionary. Reading an attribute that was never assigned
  raises \<^verbatim>\<open>AttributeError\<close>. A method runs on the instance and the trace of outside
  calls, and returns a value or raises.
\<close>

type_synonym trainer = "(string \<times> pyval) list"

type_synonym 'a action = "trainer \<times> event list \<Rightarrow> (error + 'a) \<times> trainer \<times> event list"

definition ret :: "'a \<Rightarrow> 'a action" where
  "ret x s = (Inr x, s)"

definition raise :: "error \<Rightarrow> 'a action" where
  "raise err s = (Inl err, s)"

definition bnd :: "'a action \<Rightarrow> ('a \<Rightarrow> 'b action) \<Rightarrow> 'b action" where
  "bnd m f s = (case m s of (Inl err, s') \<Rightarrow> (Inl err, s') | (Inr x, s') \<Rightarrow> f x s')"

definition getattr :: "string \<Rightarrow> pyval action" where
  "getattr name s =
     (case map_of (fst s) name of
        None \<Rightarrow> (Inl (AttributeError name), s)
      | Some v \<Rightarrow> (Inr v, s))"

definition setattr :: "string \<Rightarrow> pyval \<Rightarrow> unit action" where
  "setattr name v s = (Inr (), AList.update name v (fst s), snd s)"

definition emit :: "event \<Rightarrow> unit action" where
  "emit ev s = (Inr (), fst s, snd s @ [ev])"

fun is_None :: "pyval \<Rightarrow> bool" where
  "is_None PyNone = True"
| "is_None v = False"

fun is_dict :: "pyval \<Rightarrow> bool" where
  "is_dict (PyDict d) = True"
| "is_dict v = False"

fun is_module :: "pyval \<Rightarrow> bool" where
  "is_module (PyModule m) = True"
| "is_module v = False"

fun is_onnx :: "pyval \<Rightarrow> bool" where
  "is_onnx (PyOnnx g) = True"
| "is_onnx v = False"

fun is_optimizer_config :: "pyval \<Rightarrow> bool" where
  "is_optimizer_config (PyOptimizerConfig c) = True"
| "is_optimizer_config v = False"

fun is_options :: "pyval \<Rightarrow> bool" where
  "is_options (PyOptions opts) = True"
| "is_options v = False"

text \<open>\<^verbatim>\<open>callable(v)\<close>: functions, classes and modules are callable.\<close>

fun py_callable :: "pyval \<Rightarrow> bool" where
  "py_callable (PyCallable sig) = True"
| "py_callable (PyModule m) = True"
| "py_callable v = False"

text \<open>
  \<^verbatim>\<open>len(signature(v).parameters)\<close>. The signature of a module is that of
  \<^verbatim>\<open>torch.nn.Module.__call__(self, *input, **kwargs)\<close> without \<^verbatim>\<open>self\<close>: two
  parameters. \<^verbatim>\<open>inspect.signature\<close> raises \<^verbatim>\<open>TypeError\<close> on an object that is not
  callable.
\<close>

fun signature_parameters :: "pyval \<Rightarrow> error + nat" where
  "signature_parameters (PyCallable (Inr n)) = Inr n"
| "signature_parameters (PyCallable (Inl msg)) = Inl (ValueError msg)"
| "signature_parameters (PyModule m) = Inr 2"
| "signature_parameters v = Inl (TypeError ''is not a callable object'')"

text \<open>The truth value of an object in an \<^verbatim>\<open>if\<close>.\<close>

fun truthy :: "pyval \<Rightarrow> bool" where
  "truthy PyNone = False"
| "truthy (PyBool b) = b"
| "truthy (PyInt n) = (n \<noteq> 0)"
| "truthy (PyStr s) = (s \<noteq> [])"
| "truthy (PyDict d) = (d \<noteq> [])"
| "truthy (PyList xs) = (xs \<noteq> [])"
| "truthy v = True"

subsection \<open>The constructor (lines 108--144)\<close>

text \<open>The messages of the assertions, without the quotation marks around the names.\<close>

definition model_required :: string where
  "model_required = ''model is required and must be either a torch.nn.Module or ONNX model''"

definition model_desc_must_be_dict :: string where
  "model_desc_must_be_dict = ''model_desc must be a dict''"

definition optim_config_required :: string where
  "optim_config_required =
     ''optim_config is required and must be any of AdamConfig, LambConfig or SGDConfig''"

definition loss_fn_two_parameters :: string where
  "loss_fn_two_parameters = ''loss_fn must be either None or a callable with two parameters''"

definition options_must_be_options :: string where
  "options_must_be_options = ''loss_fn must be either None or ORTTrainerOptions''"

definition loss_fn_must_be_module :: string where
  "loss_fn_must_be_module = ''loss_fn must be either None or torch.nn.Module''"

definition loss_fn_with_onnx_model :: string where
  "loss_fn_with_onnx_model = ''loss_fn must not be specified when model is an ONNX model''"

definition unknown_model_type :: string where
  "unknown_model_type = ''model must be either torch.nn.Module or onnx.ModelProto''"

text \<open>
  Line 114:
  \<^verbatim>\<open>assert loss_fn is None or (callable(loss_fn) and len(signature(loss_fn).parameters) == 2)\<close>.
  The operands are evaluated left to right; an exception raised by \<^verbatim>\<open>signature\<close> leaves
  the constructor as it is.
\<close>

definition check_loss_fn :: "pyval \<Rightarrow> error + unit" where
  "check_loss_fn loss_fn =
     (if is_None loss_fn then Inr ()
      else if \<not> py_callable loss_fn then Inl (AssertionError loss_fn_two_parameters)
      else (case signature_parameters loss_fn of
              Inl err \<Rightarrow> Inl err
            | Inr n \<Rightarrow> if n = 2 then Inr () else Inl (AssertionError loss_fn_two_parameters)))"

text \<open>
  Lines 128--140, the model and loss validation. The assertion on line 131 tests
  \<^verbatim>\<open>isinstance(model, torch.nn.Module)\<close> inside the branch that has just established it.
\<close>

definition bind_model :: "trainer \<Rightarrow> pyval \<Rightarrow> pyval \<Rightarrow> error + trainer" where
  "bind_model self model loss_fn =
     (if is_module model then
        (if \<not> (is_None loss_fn \<or> is_module model) then Inl (AssertionError loss_fn_must_be_module)
         else Inr (AList.update ''_loss_fn'' loss_fn (AList.update ''_torch_model'' model self)))
      else if is_onnx model then
        (if \<not> is_None loss_fn then Inl (AssertionError loss_fn_with_onnx_model)
         else Inr (AList.update ''_loss_fn'' PyNone (AList.update ''_onnx_model'' model self)))
      else Inl (ValueError unknown_model_type))"

definition ORTTrainer_init ::
  "env \<Rightarrow> pyval \<Rightarrow> pyval \<Rightarrow> pyval \<Rightarrow> pyval \<Rightarrow> pyval \<Rightarrow> error + trainer" where
  "ORTTrainer_init e model model_desc optim_config loss_fn options =
     (if is_None model then Inl (AssertionError model_required)
      else if \<not> is_dict model_desc then Inl (AssertionError model_desc_must_be_dict)
      else if \<not> is_optimizer_config optim_config then Inl (AssertionError optim_config_required)
      else
        (case check_loss_fn loss_fn of
           Inl err \<Rightarrow> Inl err
         | Inr u \<Rightarrow>
             (if \<not> (is_None options \<or> is_options options)
              then Inl (AssertionError options_must_be_options)
              else
                (case bind_model [(''_torch_model'', PyNone), (''_onnx_model'', PyNone)]
                        model loss_fn of
                   Inl err \<Rightarrow> Inl err
                 | Inr self \<Rightarrow>
                     (case validate_model_desc e model_desc of
                        Inl err \<Rightarrow> Inl err
                      | Inr d \<Rightarrow>
                          Inr (AList.update ''options'' (make_options e options)
                                (AList.update ''optim_config'' optim_config
                                  (AList.update ''model_desc'' (PyModelDesc d) self))))))))"

subsection \<open>The methods \<^verbatim>\<open>eval_step\<close> and \<^verbatim>\<open>save_as_onnx\<close> (lines 146--167)\<close>

text \<open>Both bodies are a docstring and \<^verbatim>\<open>pass\<close>.\<close>

definition eval_step :: "pyval list \<Rightarrow> unit action" where
  "eval_step input = ret ()"

definition save_as_onnx :: "string \<Rightarrow> unit action" where
  "save_as_onnx path = ret ()"

subsection \<open>The lazy build (lines 263--280)\<close>

text \<open>\<^verbatim>\<open>self.torch_model_.cpu()\<close>, once the attribute has been read.\<close>

fun call_cpu :: "pyval \<Rightarrow> unit action" where
  "call_cpu (PyModule m) = emit ModuleCpu"
| "call_cpu v = raise (AttributeError ''cpu'')"

text \<open>The name \<^verbatim>\<open>inputs\<close> on line 271: the parameter is \<^verbatim>\<open>*input\<close>, so it is a global.\<close>

definition global_name_inputs :: "env \<Rightarrow> pyval action" where
  "global_name_inputs e =
     (case global_inputs e of
        None \<Rightarrow> raise (NameError ''inputs'')
      | Some v \<Rightarrow> ret v)"

text \<open>The call on line 271; the trace counts it.\<close>

definition call_convert :: "env \<Rightarrow> pyval list \<Rightarrow> (string \<times> pyval) list \<Rightarrow> pyval action" where
  "call_convert e args kwargs s =
     (case bound_convert_call e args kwargs (snd s @ [CallConvert]) of
        (r, trace) \<Rightarrow> (r, fst s, trace))"

text \<open>
  \<^verbatim>\<open>postprocess.run_postprocess(g)\<close>; the pass reads \<^verbatim>\<open>g.graph\<close>, which only an
  ONNX model has.
\<close>

fun call_run_postprocess :: "env \<Rightarrow> pyval \<Rightarrow> pyval action" where
  "call_run_postprocess e (PyOnnx g) =
     bnd (emit (RunPostprocess g)) (\<lambda>u. ret (PyOnnx (run_postprocess e g)))"
| "call_run_postprocess e v = raise (AttributeError ''graph'')"

text \<open>
  \<^verbatim>\<open>self._extra_postprocess(g)\<close> and \<^verbatim>\<open>self._verify_fully_optimized_model(g)\<close>:
  calling an object that is not callable raises \<^verbatim>\<open>TypeError\<close>.
\<close>

fun call_extra_postprocess :: "pyval \<Rightarrow> pyval \<Rightarrow> unit action" where
  "call_extra_postprocess (PyCallable sig) g = emit (ExtraPostprocess g)"
| "call_extra_postprocess f g = raise (TypeError ''object is not callable'')"

fun call_verify :: "pyval \<Rightarrow> pyval \<Rightarrow> unit action" where
  "call_verify (PyCallable sig) g = emit (VerifyFullyOptimized g)"
| "call_verify f g = raise (TypeError ''object is not callable'')"

text \<open>Lines 274--280, after the assignment to \<^verbatim>\<open>self.onnx_model\<close>.\<close>

definition selected_tasks :: "env \<Rightarrow> unit action" where
  "selected_tasks e =
     bnd (getattr ''_enable_internal_postprocess'') (\<lambda>flag.
     bnd (if truthy flag
          then bnd (getattr ''onnx_model_'') (\<lambda>g.
               bnd (call_run_postprocess e g) (\<lambda>p.
               setattr ''_onnx_model_'' p))
          else ret ()) (\<lambda>u.
     bnd (getattr ''_extra_postprocess'') (\<lambda>extra.
     bnd (if truthy extra
          then bnd (getattr ''_extra_postprocess'') (\<lambda>f.
               bnd (getattr ''onnx_model_'') (\<lambda>g.
               call_extra_postprocess f g))
          else ret ()) (\<lambda>u.
     bnd (getattr ''_verify_fully_optimized_model'') (\<lambda>verify.
     bnd (getattr ''onnx_model_'') (\<lambda>g.
     call_verify verify g))))))"

text \<open>Lines 268--271: the arguments are read left to right, then the call is made.\<close>

definition convert_the_model :: "env \<Rightarrow> unit action" where
  "convert_the_model e =
     bnd (getattr ''torch_model_'') (\<lambda>m.
     bnd (call_cpu m) (\<lambda>u.
     bnd (getattr ''_torch_model'') (\<lambda>a1.
     bnd (getattr ''loss_fn'') (\<lambda>a2.
     bnd (getattr ''model_desc'') (\<lambda>a3.
     bnd (global_name_inputs e) (\<lambda>a5.
     bnd (getattr ''opset_version'') (\<lambda>k1.
     bnd (getattr ''_enable_internal_postprocess'') (\<lambda>k2.
     bnd (call_convert e [a1, a2, a3, PyDevice CPU, a5]
            [(''opset_version'', k1), (''_enable_internal_postprocess'', k2)]) (\<lambda>r.
     setattr ''onnx_model'' r)))))))))"

definition init_onnx_model :: "env \<Rightarrow> pyval list \<Rightarrow> unit action" where
  "init_onnx_model e input =
     bnd (getattr ''_onnx_model'') (\<lambda>onnx_model.
       if \<not> is_None onnx_model then ret ()
       else bnd (getattr ''_torch_model'') (\<lambda>torch_model.
         if \<not> is_None torch_model
         then bnd (convert_the_model e) (\<lambda>u. selected_tasks e)
         else ret ()))"

subsection \<open>The method \<^verbatim>\<open>train_step\<close> (lines 283--298)\<close>

definition train_step :: "env \<Rightarrow> pyval list \<Rightarrow> unit action" where
  "train_step e input =
     bnd (getattr ''_onnx_model'') (\<lambda>onnx_model.
       if is_None onnx_model then init_onnx_model e input else ret ())"

text \<open>\<open>train_steps e inputs\<close> calls \<^verbatim>\<open>train_step\<close> once per element, whatever each call returns.\<close>

fun train_steps :: "env \<Rightarrow> pyval list list \<Rightarrow> trainer \<times> event list \<Rightarrow> trainer \<times> event list" where
  "train_steps e [] s = s"
| "train_steps e (input # rest) s = train_steps e rest (snd (train_step e input s))"

text \<open>How often the trace records the call of the export routine.\<close>

definition export_count :: "event list \<Rightarrow> nat" where
  "export_count trace = length (filter (\<lambda>ev. ev = CallConvert) trace)"

text \<open>
  A descriptor for examples: input \<^verbatim>\<open>("x", ["batch", 128])\<close>, output
  \<^verbatim>\<open>("y", [128, 256])\<close>.
\<close>

definition example_x :: io_desc where
  "example_x =
     \<lparr>desc_name = ''x'', desc_shape = [StrAxis ''batch'', IntAxis 128], desc_dtype = None\<rparr>"

definition example_y :: io_desc where
  "example_y =
     \<lparr>desc_name = ''y'', desc_shape = [IntAxis 128, IntAxis 256], desc_dtype = None\<rparr>"

definition example_desc :: model_desc where
  "example_desc = \<lparr>md_inputs = [example_x], md_outputs = [example_y]\<rparr>"

text \<open>
  A descriptor whose names are unique among the inputs and among the outputs, with both
  names used on either side: inputs \<^verbatim>\<open>("t", ["a", 4])\<close> and \<^verbatim>\<open>("s", ["n"])\<close>, outputs
  \<^verbatim>\<open>("t", [4, "b"])\<close> and \<^verbatim>\<open>("s", [2])\<close>.
\<close>

definition shared_name_desc :: model_desc where
  "shared_name_desc =
     \<lparr>md_inputs =
        [\<lparr>desc_name = ''t'', desc_shape = [StrAxis ''a'', IntAxis 4], desc_dtype = None\<rparr>,
         \<lparr>desc_name = ''s'', desc_shape = [StrAxis ''n''], desc_dtype = None\<rparr>],
      md_outputs =
        [\<lparr>desc_name = ''t'', desc_shape = [IntAxis 4, StrAxis ''b''], desc_dtype = None\<rparr>,
         \<lparr>desc_name = ''s'', desc_shape = [IntAxis 2], desc_dtype = None\<rparr>]\<rparr>"

section \<open>Reading a trace\<close>

fun export_calls :: "event list \<Rightarrow> export_args list" where
  "export_calls [] = []"
| "export_calls (OnnxExport args # evs) = args # export_calls evs"
| "export_calls (ev # evs) = export_calls evs"

fun forward_calls :: "event list \<Rightarrow> tensor list list" where
  "forward_calls [] = []"
| "forward_calls (ForwardNoGrad ts # evs) = ts # forward_calls evs"
| "forward_calls (ev # evs) = forward_calls evs"

text \<open>Whether \<open>p\<close> occurs in \<open>s\<close> as a contiguous piece.\<close>

fun is_substring :: "string \<Rightarrow> string \<Rightarrow> bool" where
  "is_substring p [] = (p = [])"
| "is_substring p (c # cs) = (startswith (c # cs) p \<or> is_substring p cs)"

section \<open>Example values\<close>

definition example_tensor :: tensor where
  "example_tensor = \<lparr>t_data = [1, 2, 3], t_dtype = ''float32'', t_device = CUDA 0\<rparr>"

definition example_labels :: tensor where
  "example_labels = \<lparr>t_data = [7], t_dtype = ''int64'', t_device = CUDA 0\<rparr>"

definition example_loss :: tensor where
  "example_loss = \<lparr>t_data = [0], t_dtype = ''float16'', t_device = CPU\<rparr>"

text \<open>A module with parameters \<^verbatim>\<open>weight\<close> and \<^verbatim>\<open>bias\<close> whose call returns one tensor.\<close>

definition example_module :: torch_module where
  "example_module = Module (\<lambda>ts. Inr (OutTensor example_loss)) [''weight'', ''bias''] None"

text \<open>A wrapper that keeps the user's module under \<^verbatim>\<open>model_\<close>.\<close>

definition example_wrap :: "torch_module \<Rightarrow> pyval \<Rightarrow> string list \<Rightarrow> torch_module" where
  "example_wrap m loss_fn names =
     Module (forward m) (map (\<lambda>n. ''model_.'' @ n) (parameter_names m)) (Some m)"

definition example_graph :: onnx_model where
  "example_graph =
     \<lparr>graph_initializer =
        [\<lparr>tp_name = ''model_.weight'', tp_raw_data = [1]\<rparr>,
         \<lparr>tp_name = ''model_.bias'', tp_raw_data = [2]\<rparr>,
         \<lparr>tp_name = ''step'', tp_raw_data = [0]\<rparr>],
      graph_node =
        [\<lparr>np_op_type = ''MatMul'', np_input = [''x'', ''model_.weight''], np_output = [''h'']\<rparr>,
         \<lparr>np_op_type = ''Add'', np_input = [''h'', ''model_.bias''], np_output = [''y'']\<rparr>,
         \<lparr>np_op_type = ''Mul'', np_input = [''y'', ''model_.scale''], np_output = [''z'']\<rparr>]\<rparr>"

definition example_env :: env where
  "example_env =
     \<lparr>DEFAULT_OPSET_VERSION = 12,
      torch_version = [1, 6, 0],
      wrap_for_input_match = example_wrap,
      torch_onnx_export = (\<lambda>m args. Inr example_graph),
      run_postprocess = (\<lambda>g. g),
      global_inputs = None,
      validate_model_desc = (\<lambda>v. Inr example_desc),
      make_options = (\<lambda>v. PyOptions []),
      bound_convert_call =
        (\<lambda>args kwargs trace. (Inl (TypeError ''got multiple values for argument opset_version''), trace))\<rparr>"

text \<open>
  The instance that \<^verbatim>\<open>ORTTrainer(module, {}, SGD)\<close> builds in the example environment,
  and the one built from an ONNX model.
\<close>

definition example_trainer :: trainer where
  "example_trainer =
     [(''_torch_model'', PyModule example_module), (''_onnx_model'', PyNone),
      (''_loss_fn'', PyNone), (''model_desc'', PyModelDesc example_desc),
      (''optim_config'', PyOptimizerConfig ''SGD''), (''options'', PyOptions [])]"

definition example_onnx_trainer :: trainer where
  "example_onnx_trainer =
     [(''_torch_model'', PyNone), (''_onnx_model'', PyOnnx example_graph),
      (''_loss_fn'', PyNone), (''model_desc'', PyModelDesc example_desc),
      (''optim_config'', PyOptimizerConfig ''SGD''), (''options'', PyOptions [])]"

section \<open>Properties of the dynamic-axis map\<close>

lemma map_of_symbolic_axis_loop:
  "map_of (symbolic_axis_loop i shape acc) k =
     (if i \<le> k \<and> k < i + length shape
      then (case shape ! (k - i) of StrAxis s \<Rightarrow> Some s | IntAxis n \<Rightarrow> map_of acc k)
      else map_of acc k)"
proof (induction i shape acc rule: symbolic_axis_loop.induct)
  case (1 i symbolic_axis)
  show ?case by auto
next
  case (2 i s rest symbolic_axis)
  consider "k < i" | "k = i" | "i < k" by linarith
  then show ?case
  proof cases
    case 1
    then show ?thesis using 2 by (simp add: update_conv')
  next
    case 2
    then show ?thesis using "2.IH" by (simp add: update_conv')
  next
    case 3
    then have eq: "k - i = Suc (k - Suc i)" by simp
    have ne: "k \<noteq> i" using 3 by simp
    show ?thesis using 3 "2.IH" by (auto simp: eq ne update_conv' split: axis.splits)
  qed
next
  case (3 i n rest symbolic_axis)
  consider "k < i" | "k = i" | "i < k" by linarith
  then show ?case
  proof cases
    case 1
    then show ?thesis using 3 by simp
  next
    case 2
    then show ?thesis using "3.IH" by simp
  next
    case 3
    then have eq: "k - i = Suc (k - Suc i)" by simp
    show ?thesis using 3 "3.IH" by (auto simp: eq split: axis.splits)
  qed
qed

lemma map_of_symbolic_axis_of:
  "map_of (symbolic_axis_of shape) k =
     (if k < length shape
      then (case shape ! k of StrAxis s \<Rightarrow> Some s | IntAxis n \<Rightarrow> None)
      else None)"
  by (auto simp: symbolic_axis_of_def map_of_symbolic_axis_loop split: axis.splits)

lemma symbolic_axis_of_empty_iff:
  "symbolic_axis_of shape = [] \<longleftrightarrow> (\<forall>k < length shape. \<not> is_str (shape ! k))"
proof
  assume e: "symbolic_axis_of shape = []"
  show "\<forall>k < length shape. \<not> is_str (shape ! k)"
  proof (intro allI impI notI)
    fix k assume k: "k < length shape" and s: "is_str (shape ! k)"
    have "map_of (symbolic_axis_of shape) k = None" using e by simp
    with k s show False
      by (cases "shape ! k") (simp_all add: map_of_symbolic_axis_of)
  qed
next
  assume a: "\<forall>k < length shape. \<not> is_str (shape ! k)"
  have "map_of (symbolic_axis_of shape) k = None" for k
    using a by (cases "shape ! k") (auto simp: map_of_symbolic_axis_of)
  then have "map_of (symbolic_axis_of shape) = Map.empty" by (rule ext)
  then show "symbolic_axis_of shape = []" by (simp only: map_of_eq_empty_iff)
qed

lemma map_of_dynamic_axes_loop_notin:
  "n \<notin> desc_name ` set ds \<Longrightarrow> map_of (dynamic_axes_loop ds acc) n = map_of acc n"
  by (induction ds arbitrary: acc) (auto simp: Let_def update_conv')

lemma map_of_dynamic_axes_loop_in:
  "distinct (map desc_name ds) \<Longrightarrow> d \<in> set ds \<Longrightarrow>
   map_of (dynamic_axes_loop ds acc) (desc_name d) =
     (if symbolic_axis_of (desc_shape d) = [] then map_of acc (desc_name d)
      else Some (symbolic_axis_of (desc_shape d)))"
proof (induction ds arbitrary: acc)
  case Nil
  then show ?case by simp
next
  case (Cons x xs)
  show ?case
  proof (cases "d = x")
    case True
    have "desc_name x \<notin> desc_name ` set xs" using Cons.prems(1) by simp
    then show ?thesis using True
      by (simp add: Let_def map_of_dynamic_axes_loop_notin update_conv')
  next
    case False
    then have "d \<in> set xs" using Cons.prems(2) by simp
    moreover have "distinct (map desc_name xs)" using Cons.prems(1) by simp
    moreover have "desc_name x \<notin> desc_name ` set xs" using Cons.prems(1) by simp
    then have "desc_name d \<noteq> desc_name x"
      using \<open>d \<in> set xs\<close> by (metis imageI)
    ultimately show ?thesis
      using Cons.IH by (simp add: Let_def update_conv')
  qed
qed

lemma dynamic_axes_loop_append:
  "dynamic_axes_loop (xs @ ys) acc = dynamic_axes_loop ys (dynamic_axes_loop xs acc)"
  by (induction xs arbitrary: acc) (simp_all add: Let_def)

lemma dynamic_axes_of_append:
  "dynamic_axes_of md = dynamic_axes_loop (md_inputs md @ md_outputs md) []"
  by (simp add: dynamic_axes_of_def dynamic_axes_loop_append)

text \<open>
  Claim C4, as amended. For a descriptor whose tensor names are pairwise distinct over
  inputs and outputs together, the dynamic-axis map has, for every input and output description
  \<open>t\<close>, an entry under the name of \<open>t\<close> exactly when some element of its shape is a
  string; that entry maps exactly the indices of the string elements to those strings.
  A tensor without a string dimension has no entry (not an empty one), and no other
  name has an entry.
\<close>

theorem dynamic_axes_of_entries:
  assumes "distinct (map desc_name (md_inputs md @ md_outputs md))"
  shows "(\<forall>t \<in> set (md_inputs md @ md_outputs md).
            map_of (dynamic_axes_of md) (desc_name t) =
              (if \<exists>i < length (desc_shape t). is_str (desc_shape t ! i)
               then Some (symbolic_axis_of (desc_shape t)) else None)
          \<and> (\<forall>i. map_of (symbolic_axis_of (desc_shape t)) i =
                (if i < length (desc_shape t)
                 then (case desc_shape t ! i of StrAxis s \<Rightarrow> Some s | IntAxis n \<Rightarrow> None)
                 else None)))
       \<and> (\<forall>n. n \<notin> desc_name ` set (md_inputs md @ md_outputs md) \<longrightarrow>
              map_of (dynamic_axes_of md) n = None)"
proof (intro conjI ballI allI impI)
  fix t assume t: "t \<in> set (md_inputs md @ md_outputs md)"
  have "map_of (dynamic_axes_of md) (desc_name t) =
          (if symbolic_axis_of (desc_shape t) = [] then None
           else Some (symbolic_axis_of (desc_shape t)))"
    unfolding dynamic_axes_of_append
    using map_of_dynamic_axes_loop_in [OF assms t, of "[]"] by simp
  then show "map_of (dynamic_axes_of md) (desc_name t) =
          (if \<exists>i < length (desc_shape t). is_str (desc_shape t ! i)
           then Some (symbolic_axis_of (desc_shape t)) else None)"
    by (simp add: symbolic_axis_of_empty_iff)
next
  fix t i
  show "map_of (symbolic_axis_of (desc_shape t)) i =
          (if i < length (desc_shape t)
           then (case desc_shape t ! i of StrAxis s \<Rightarrow> Some s | IntAxis n \<Rightarrow> None)
           else None)"
    by (rule map_of_symbolic_axis_of)
next
  fix n assume "n \<notin> desc_name ` set (md_inputs md @ md_outputs md)"
  then show "map_of (dynamic_axes_of md) n = None"
    unfolding dynamic_axes_of_append
    by (simp add: map_of_dynamic_axes_loop_notin)
qed

theorem dynamic_axes_of_entries_witness:
  "distinct (map desc_name (md_inputs example_desc @ md_outputs example_desc))
   \<and> map_of (dynamic_axes_of example_desc) ''x'' = Some [(0, ''batch'')]
   \<and> map_of (dynamic_axes_of example_desc) ''y'' = None
   \<and> map_of (dynamic_axes_of example_desc) ''z'' = None"
proof -
  have d: "distinct (map desc_name (md_inputs example_desc @ md_outputs example_desc))"
    by (simp add: example_desc_def example_x_def example_y_def)
  have tx: "example_x \<in> set (md_inputs example_desc @ md_outputs example_desc)"
    and ty: "example_y \<in> set (md_inputs example_desc @ md_outputs example_desc)"
    by (simp_all add: example_desc_def)
  have ex: "\<exists>i < length (desc_shape example_x). is_str (desc_shape example_x ! i)"
    by (rule exI [of _ 0]) (simp add: example_x_def)
  have nex: "\<not> (\<exists>i < length (desc_shape example_y). is_str (desc_shape example_y ! i))"
    using symbolic_axis_of_empty_iff [of "desc_shape example_y"]
    by (simp add: example_y_def symbolic_axis_of_def)
  have z: "''z'' \<notin> desc_name ` set (md_inputs example_desc @ md_outputs example_desc)"
    by (simp add: example_desc_def example_x_def example_y_def)
  note th = dynamic_axes_of_entries [OF d]
  have "map_of (dynamic_axes_of example_desc) (desc_name example_x) =
          Some (symbolic_axis_of (desc_shape example_x))"
    using th tx ex by simp
  then have x: "map_of (dynamic_axes_of example_desc) ''x'' = Some [(0, ''batch'')]"
    by (simp add: example_x_def symbolic_axis_of_def)
  have "map_of (dynamic_axes_of example_desc) (desc_name example_y) = None"
    using th ty nex by simp
  then have y: "map_of (dynamic_axes_of example_desc) ''y'' = None"
    by (simp add: example_y_def)
  have "map_of (dynamic_axes_of example_desc) ''z'' = None"
    using th z by blast
  with d x y show ?thesis by simp
qed

text \<open>
  The claim as first stated asks no more of the names than the descriptor gives: they
  are unique among the inputs and among the outputs. In \<open>shared_name_desc\<close> the map is
  keyed by names that an input and an output share: the entry of \<^verbatim>\<open>t\<close> is built from
  the output alone, so index 0, a string in the input \<^verbatim>\<open>t\<close>, is not in it; and the
  output \<^verbatim>\<open>s\<close>, which has no string dimension, has the entry of the input \<^verbatim>\<open>s\<close>.
\<close>

theorem dynamic_axes_of_shared_names:
  "distinct (map desc_name (md_inputs shared_name_desc))
   \<and> distinct (map desc_name (md_outputs shared_name_desc))
   \<and> desc_shape (md_inputs shared_name_desc ! 0) = [StrAxis ''a'', IntAxis 4]
   \<and> desc_name (md_inputs shared_name_desc ! 0) = ''t''
   \<and> desc_shape (md_outputs shared_name_desc ! 1) = [IntAxis 2]
   \<and> desc_name (md_outputs shared_name_desc ! 1) = ''s''
   \<and> map_of (dynamic_axes_of shared_name_desc) ''t'' = Some [(1, ''b'')]
   \<and> map_of (dynamic_axes_of shared_name_desc) ''s'' = Some [(0, ''n'')]"
  by (simp add: shared_name_desc_def dynamic_axes_of_def symbolic_axis_of_def)

section \<open>Properties of the sample inputs, dtypes and export options\<close>

lemma filter_enumerate_less:
  "map (\<lambda>(i, x). f x) (filter (\<lambda>(i, x). i < n) (enumerate k xs)) = map f (take (n - k) xs)"
proof (induction xs arbitrary: k)
  case Nil
  show ?case by simp
next
  case (Cons x xs)
  show ?case
  proof (cases "k < n")
    case True
    then have "n - k = Suc (n - Suc k)" by simp
    then show ?thesis using True Cons [of "Suc k"] by simp
  next
    case False
    then show ?thesis using Cons [of "Suc k"] by simp
  qed
qed

lemma truncate_samples_take:
  "truncate_samples xs dev n = map (to_device dev) (take n xs)"
  using filter_enumerate_less [of "to_device dev" n 0 xs]
  by (simp add: truncate_samples_def)

lemma lookup_samples_present:
  "\<forall>k \<in> set ks. map_of d (desc_name k) \<noteq> None \<Longrightarrow>
   \<exists>ts. lookup_samples d dev ks = Inr ts \<and>
        map Some ts = map (\<lambda>k. map_option (to_device dev) (map_of d (desc_name k))) ks"
  by (induction ks) auto

lemma lookup_samples_missing:
  "find (\<lambda>k. map_of d (desc_name k) = None) ks = Some k \<Longrightarrow>
   lookup_samples d dev ks = Inl (KeyError (desc_name k))"
  by (induction ks) (auto split: if_splits)

lemma record_dtypes_length: "length (record_dtypes ss ds) = length ds"
  by (induction ss ds rule: record_dtypes.induct) simp_all

lemma record_dtypes_nth:
  "i < length ds \<Longrightarrow>
   record_dtypes ss ds ! i =
     (if i < length ss then (ds ! i)\<lparr>desc_dtype := Some (t_dtype (ss ! i))\<rparr> else ds ! i)"
proof (induction ss ds arbitrary: i rule: record_dtypes.induct)
  case (1 s ss d ds)
  then show ?case by (cases i) simp_all
next
  case (2 ds)
  show ?case by simp
next
  case (3 ss)
  then show ?case by simp
qed

lemma training_enabled_other: "training_enabled (opt_training (other_export_options v))"
  by (simp add: other_export_options_def Let_def)

lemma export_calls_append: "export_calls (xs @ ys) = export_calls xs @ export_calls ys"
  by (induction xs rule: export_calls.induct) simp_all

lemma forward_calls_append: "forward_calls (xs @ ys) = forward_calls xs @ forward_calls ys"
  by (induction xs rule: forward_calls.induct) simp_all

text \<open>
  Claim C5, as amended. A single tensor is handled as the one-element list holding it.
  A dict that has every declared input name as a key yields one sample per declared
  input, in the order of the declaration, each looked up by name and moved to the
  device. A dict that lacks a declared input name makes the export raise
  \<^verbatim>\<open>KeyError\<close> for the first declared name it lacks. A list or a tuple is cut to the
  number of declared inputs. Any other value makes the export raise \<^verbatim>\<open>RuntimeError\<close>.
  Where the export raises, the descriptor and the trace are as they were: nothing has
  been called yet.
\<close>

theorem gather_sample_inputs_cases:
  "gather_sample_inputs md dev (InTensor t) = gather_sample_inputs md dev (InList [t])
   \<and> ((\<forall>k \<in> set (md_inputs md). map_of d (desc_name k) \<noteq> None) \<longrightarrow>
        (\<exists>ts. gather_sample_inputs md dev (InDict d) = Inr ts \<and>
              map Some ts =
                map (\<lambda>k. map_option (to_device dev) (map_of d (desc_name k))) (md_inputs md)))
   \<and> (find (\<lambda>k. map_of d (desc_name k) = None) (md_inputs md) = Some missing \<longrightarrow>
        gather_sample_inputs md dev (InDict d) = Inl (KeyError (desc_name missing))
        \<and> convert_model_loss_fn_to_onnx e model loss_fn md dev (InDict d) opset_version pp trace =
            (Inl (KeyError (desc_name missing)), md, trace))
   \<and> gather_sample_inputs md dev (InList xs) =
        Inr (map (to_device dev) (take (length (md_inputs md)) xs))
   \<and> gather_sample_inputs md dev (InTuple xs) =
        Inr (map (to_device dev) (take (length (md_inputs md)) xs))
   \<and> gather_sample_inputs md dev InOther = Inl (RuntimeError unexpected_input_type)
   \<and> convert_model_loss_fn_to_onnx e model loss_fn md dev InOther opset_version pp trace =
        (Inl (RuntimeError unexpected_input_type), md, trace)"
proof (intro conjI impI)
  show "gather_sample_inputs md dev (InTensor t) = gather_sample_inputs md dev (InList [t])"
    by (simp add: gather_sample_inputs_def)
next
  assume "\<forall>k \<in> set (md_inputs md). map_of d (desc_name k) \<noteq> None"
  then show "\<exists>ts. gather_sample_inputs md dev (InDict d) = Inr ts \<and>
      map Some ts = map (\<lambda>k. map_option (to_device dev) (map_of d (desc_name k))) (md_inputs md)"
    using lookup_samples_present [of "md_inputs md" d dev]
    by (simp add: gather_sample_inputs_def)
next
  assume f: "find (\<lambda>k. map_of d (desc_name k) = None) (md_inputs md) = Some missing"
  show k: "gather_sample_inputs md dev (InDict d) = Inl (KeyError (desc_name missing))"
    using lookup_samples_missing [OF f] by (simp add: gather_sample_inputs_def)
  show "convert_model_loss_fn_to_onnx e model loss_fn md dev (InDict d) opset_version pp trace =
      (Inl (KeyError (desc_name missing)), md, trace)"
    by (simp add: convert_model_loss_fn_to_onnx_def k)
next
  show "gather_sample_inputs md dev (InList xs) =
      Inr (map (to_device dev) (take (length (md_inputs md)) xs))"
    by (simp add: gather_sample_inputs_def truncate_samples_take)
next
  show "gather_sample_inputs md dev (InTuple xs) =
      Inr (map (to_device dev) (take (length (md_inputs md)) xs))"
    by (simp add: gather_sample_inputs_def truncate_samples_take)
next
  show g: "gather_sample_inputs md dev InOther = Inl (RuntimeError unexpected_input_type)"
    by (simp add: gather_sample_inputs_def)
  show "convert_model_loss_fn_to_onnx e model loss_fn md dev InOther opset_version pp trace =
      (Inl (RuntimeError unexpected_input_type), md, trace)"
    by (simp add: convert_model_loss_fn_to_onnx_def g)
qed

theorem gather_sample_inputs_cases_witness:
  "gather_sample_inputs example_desc CPU (InTensor example_tensor) =
     Inr [example_tensor\<lparr>t_device := CPU\<rparr>]
   \<and> gather_sample_inputs example_desc CPU
        (InDict [(''labels'', example_labels), (''x'', example_tensor)]) =
     Inr [example_tensor\<lparr>t_device := CPU\<rparr>]
   \<and> convert_model_loss_fn_to_onnx example_env example_module PyNone example_desc CPU
        (InDict [(''labels'', example_labels)]) 12 True [] =
     (Inl (KeyError ''x''), example_desc, [])
   \<and> gather_sample_inputs example_desc CPU (InList [example_tensor, example_labels]) =
     Inr [example_tensor\<lparr>t_device := CPU\<rparr>]
   \<and> gather_sample_inputs example_desc CPU (InTuple []) = Inr []
   \<and> convert_model_loss_fn_to_onnx example_env example_module PyNone example_desc CPU InOther
        12 True [] = (Inl (RuntimeError unexpected_input_type), example_desc, [])"
proof -
  note th = gather_sample_inputs_cases
    [of example_desc CPU _ "[(''labels'', example_labels), (''x'', example_tensor)]"]
  have keys: "\<forall>k \<in> set (md_inputs example_desc).
      map_of [(''labels'', example_labels), (''x'', example_tensor)] (desc_name k) \<noteq> None"
    by (simp add: example_desc_def example_x_def)
  have a: "gather_sample_inputs example_desc CPU (InTensor example_tensor) =
      Inr [example_tensor\<lparr>t_device := CPU\<rparr>]"
    using th [of example_tensor _ _ _ _ _ _ _ "[example_tensor]"]
    by (simp add: example_desc_def to_device_def)
  obtain ts where ts: "gather_sample_inputs example_desc CPU
        (InDict [(''labels'', example_labels), (''x'', example_tensor)]) = Inr ts"
      and m: "map Some ts = map (\<lambda>k. map_option (to_device CPU)
        (map_of [(''labels'', example_labels), (''x'', example_tensor)] (desc_name k)))
        (md_inputs example_desc)"
    using th keys by blast
  have "map Some ts = map Some [example_tensor\<lparr>t_device := CPU\<rparr>]"
    using m by (simp add: example_desc_def example_x_def to_device_def)
  then have "ts = [example_tensor\<lparr>t_device := CPU\<rparr>]"
    by (simp only: inj_map_eq_map [OF inj_Some])
  with ts have b: "gather_sample_inputs example_desc CPU
        (InDict [(''labels'', example_labels), (''x'', example_tensor)]) =
      Inr [example_tensor\<lparr>t_device := CPU\<rparr>]" by simp
  have f: "find (\<lambda>k. map_of [(''labels'', example_labels)] (desc_name k) = None)
      (md_inputs example_desc) = Some example_x"
    by (simp add: example_desc_def example_x_def)
  have "convert_model_loss_fn_to_onnx example_env example_module PyNone example_desc CPU
        (InDict [(''labels'', example_labels)]) 12 True [] =
      (Inl (KeyError (desc_name example_x)), example_desc, [])"
    using gather_sample_inputs_cases
      [where md = example_desc and d = "[(''labels'', example_labels)]"
         and missing = example_x] f by blast
  then have k: "convert_model_loss_fn_to_onnx example_env example_module PyNone example_desc CPU
        (InDict [(''labels'', example_labels)]) 12 True [] =
      (Inl (KeyError ''x''), example_desc, [])"
    by (simp add: example_x_def)
  have c: "gather_sample_inputs example_desc CPU (InList [example_tensor, example_labels]) =
      Inr [example_tensor\<lparr>t_device := CPU\<rparr>]"
    using gather_sample_inputs_cases
      [where md = example_desc and dev = CPU and xs = "[example_tensor, example_labels]"]
    by (simp add: example_desc_def to_device_def)
  have d: "gather_sample_inputs example_desc CPU (InTuple []) = Inr []"
    using gather_sample_inputs_cases [where md = example_desc and dev = CPU and xs = "[]"]
    by simp
  have e: "convert_model_loss_fn_to_onnx example_env example_module PyNone example_desc CPU
      InOther 12 True [] = (Inl (RuntimeError unexpected_input_type), example_desc, [])"
    using th by blast
  from a b k c d e show ?thesis by simp
qed

text \<open>
  The claim as first stated has every dict yield one sample per declared input. The
  descriptor declares the input \<^verbatim>\<open>x\<close>; a dict that holds only \<^verbatim>\<open>labels\<close> yields no
  samples: the lookup raises \<^verbatim>\<open>KeyError\<close>.
\<close>

theorem gather_sample_inputs_missing_name:
  "map desc_name (md_inputs example_desc) = [''x'']
   \<and> gather_sample_inputs example_desc CPU (InDict [(''labels'', example_labels)]) =
       Inl (KeyError ''x'')"
  by (simp add: gather_sample_inputs_def example_desc_def example_x_def)

lemma convert_after_forward:
  assumes g: "gather_sample_inputs md dev inputs = Inr si"
    and f: "forward (wrap_for_input_match e model loss_fn (map desc_name (md_inputs md))) si = Inr out"
  shows "fst (snd (convert_model_loss_fn_to_onnx e model loss_fn md dev inputs opset_version pp trace)) =
           md\<lparr>md_outputs := record_dtypes (coerce_outputs out) (md_outputs md)\<rparr>"
    and "export_calls (snd (snd (convert_model_loss_fn_to_onnx e model loss_fn md dev inputs
             opset_version pp trace))) =
           export_calls trace @
             [\<lparr>ex_args = si,
               ex_input_names = map desc_name (md_inputs md),
               ex_output_names = map desc_name (md_outputs md),
               ex_opset_version = opset_version,
               ex_dynamic_axes = dynamic_axes_of md,
               ex_retain_param_name = True,
               ex_example_outputs = coerce_outputs out,
               ex_do_constant_folding = False,
               ex_training = opt_training (other_export_options (torch_version e)),
               ex_enable_onnx_checker =
                 opt_enable_onnx_checker (other_export_options (torch_version e))\<rparr>]"
    and "forward_calls (snd (snd (convert_model_loss_fn_to_onnx e model loss_fn md dev inputs
             opset_version pp trace))) = forward_calls trace @ [si]"
  by (simp_all add: convert_model_loss_fn_to_onnx_def g f Let_def export_calls_append
        forward_calls_append split: sum.splits)

text \<open>
  Claim C10. The dtypes seen at run time are written into the output descriptions
  position by position, up to the shorter of the two lists: the description at index
  \<open>i\<close> gets the dtype of sample output \<open>i\<close> when there is one and is left as it was
  otherwise, so declared outputs beyond the sample outputs keep their dtype and sample
  outputs beyond the declared ones are not used. The list of descriptions keeps its
  length. Whatever the two lengths are, once the forward pass has returned the export
  goes on to the export call with the descriptor so updated.
\<close>

theorem record_dtypes_pairs_positionally:
  "length (record_dtypes ss ds) = length ds
   \<and> (\<forall>i < length ds.
         record_dtypes ss ds ! i =
           (if i < length ss then (ds ! i)\<lparr>desc_dtype := Some (t_dtype (ss ! i))\<rparr> else ds ! i))
   \<and> (gather_sample_inputs md dev inputs = Inr si \<longrightarrow>
        forward (wrap_for_input_match e model loss_fn (map desc_name (md_inputs md))) si = Inr out \<longrightarrow>
          fst (snd (convert_model_loss_fn_to_onnx e model loss_fn md dev inputs opset_version pp trace)) =
            md\<lparr>md_outputs := record_dtypes (coerce_outputs out) (md_outputs md)\<rparr>
          \<and> length (export_calls (snd (snd (convert_model_loss_fn_to_onnx e model loss_fn md dev
                inputs opset_version pp trace)))) = Suc (length (export_calls trace)))"
  by (simp add: record_dtypes_length record_dtypes_nth convert_after_forward)

theorem record_dtypes_pairs_positionally_witness:
  "record_dtypes [] [example_y] = [example_y]
   \<and> record_dtypes [example_loss, example_tensor] [example_y] =
       [example_y\<lparr>desc_dtype := Some ''float16''\<rparr>]
   \<and> fst (snd (convert_model_loss_fn_to_onnx example_env example_module PyNone example_desc CPU
        (InTensor example_tensor) 12 True [])) =
       example_desc\<lparr>md_outputs := [example_y\<lparr>desc_dtype := Some ''float16''\<rparr>]\<rparr>"
proof -
  have g: "gather_sample_inputs example_desc CPU (InTensor example_tensor) =
      Inr [example_tensor\<lparr>t_device := CPU\<rparr>]"
    by (simp add: gather_sample_inputs_def truncate_samples_take example_desc_def to_device_def)
  have f: "forward (wrap_for_input_match example_env example_module PyNone
        (map desc_name (md_inputs example_desc))) [example_tensor\<lparr>t_device := CPU\<rparr>] =
      Inr (OutTensor example_loss)"
    by (simp add: example_env_def example_wrap_def example_module_def)
  note th = record_dtypes_pairs_positionally
  have a: "record_dtypes [] [example_y] = [example_y]"
    using th [of "[]" "[example_y]"] by (simp add: list_eq_iff_nth_eq)
  have b: "record_dtypes [example_loss, example_tensor] [example_y] =
      [example_y\<lparr>desc_dtype := Some ''float16''\<rparr>]"
    using th [of "[example_loss, example_tensor]" "[example_y]"]
    by (simp add: list_eq_iff_nth_eq example_loss_def)
  have "fst (snd (convert_model_loss_fn_to_onnx example_env example_module PyNone example_desc
        CPU (InTensor example_tensor) 12 True [])) =
      example_desc\<lparr>md_outputs :=
        record_dtypes (coerce_outputs (OutTensor example_loss)) (md_outputs example_desc)\<rparr>"
    using th g f by blast
  then have c: "fst (snd (convert_model_loss_fn_to_onnx example_env example_module PyNone
        example_desc CPU (InTensor example_tensor) 12 True [])) =
      example_desc\<lparr>md_outputs := [example_y\<lparr>desc_dtype := Some ''float16''\<rparr>]\<rparr>"
    by (simp add: example_desc_def example_loss_def)
  from a b c show ?thesis by simp
qed

text \<open>
  Claim C9. When the sample inputs have been gathered and the forward pass has returned,
  the export calls the exporter exactly once, with the input names and the output names
  of the descriptor in their declared order, the dynamic-axis map, the training option
  switched on, constant folding off, the gathered sample inputs as arguments and the
  outputs of the one forward pass as example outputs.
\<close>

theorem export_call_arguments:
  assumes "gather_sample_inputs md dev inputs = Inr si"
    and "forward (wrap_for_input_match e model loss_fn (map desc_name (md_inputs md))) si = Inr out"
  shows "\<exists>args. export_calls (snd (snd (convert_model_loss_fn_to_onnx e model loss_fn md dev inputs
             opset_version pp trace))) = export_calls trace @ [args]
          \<and> ex_input_names args = map desc_name (md_inputs md)
          \<and> ex_output_names args = map desc_name (md_outputs md)
          \<and> ex_dynamic_axes args = dynamic_axes_of md
          \<and> training_enabled (ex_training args)
          \<and> \<not> ex_do_constant_folding args
          \<and> ex_args args = si
          \<and> ex_example_outputs args = coerce_outputs out
          \<and> forward_calls (snd (snd (convert_model_loss_fn_to_onnx e model loss_fn md dev inputs
               opset_version pp trace))) = forward_calls trace @ [si]"
  using convert_after_forward(2,3) [OF assms, of opset_version pp trace]
  by (simp add: training_enabled_other)

theorem export_call_arguments_witness:
  "\<exists>args. export_calls (snd (snd (convert_model_loss_fn_to_onnx example_env example_module PyNone
       example_desc CPU (InTensor example_tensor) 12 True []))) = [args]
     \<and> ex_input_names args = [''x'']
     \<and> ex_output_names args = [''y'']
     \<and> ex_dynamic_axes args = [(''x'', [(0, ''batch'')])]
     \<and> training_enabled (ex_training args)
     \<and> \<not> ex_do_constant_folding args
     \<and> ex_args args = [example_tensor\<lparr>t_device := CPU\<rparr>]
     \<and> ex_example_outputs args = [example_loss]"
proof -
  have g: "gather_sample_inputs example_desc CPU (InTensor example_tensor) =
      Inr [example_tensor\<lparr>t_device := CPU\<rparr>]"
    by (simp add: gather_sample_inputs_def truncate_samples_take example_desc_def to_device_def)
  have f: "forward (wrap_for_input_match example_env example_module PyNone
        (map desc_name (md_inputs example_desc))) [example_tensor\<lparr>t_device := CPU\<rparr>] =
      Inr (OutTensor example_loss)"
    by (simp add: example_env_def example_wrap_def example_module_def)
  have ax: "dynamic_axes_of example_desc = [(''x'', [(0, ''batch'')])]"
    by (simp add: dynamic_axes_of_def example_desc_def example_x_def example_y_def
        symbolic_axis_of_def)
  have ins: "map desc_name (md_inputs example_desc) = [''x'']"
    and outs: "map desc_name (md_outputs example_desc) = [''y'']"
    by (simp_all add: example_desc_def example_x_def example_y_def)
  show ?thesis
    using export_call_arguments [OF g f, of 12 True "[]"]
    by (auto simp add: ax ins outs)
qed

section \<open>Properties of the initializer names\<close>

lemma fst_rename_initializers:
  "fst (rename_initializers ns d) =
     map (\<lambda>n. if startswith (tp_name n) ''model_.''
              then n\<lparr>tp_name := drop (length ''model_.'') (tp_name n)\<rparr> else n) ns"
  by (induction ns arbitrary: d) (simp_all add: Let_def)

lemma map_of_snd_rename_initializers:
  "map_of (snd (rename_initializers ns d)) k =
     (if k \<in> tp_name ` set ns \<and> startswith k ''model_.''
      then Some (drop (length ''model_.'') k) else map_of d k)"
proof (induction ns arbitrary: d)
  case Nil
  show ?case by simp
next
  case (Cons n ns)
  show ?case
  proof (cases "startswith (tp_name n) ''model_.''")
    case True
    then show ?thesis
      using Cons [of "AList.update (tp_name n) (drop (length ''model_.'') (tp_name n)) d"]
      by (auto simp: Let_def update_conv')
  next
    case False
    then show ?thesis using Cons [of d] by (auto simp: Let_def)
  qed
qed

lemma fold_update_nth:
  "distinct order \<Longrightarrow>
   length (fold (\<lambda>i xs. xs[i := g (xs ! i)]) order xs) = length xs \<and>
   (\<forall>j < length xs. fold (\<lambda>i xs. xs[i := g (xs ! i)]) order xs ! j =
      (if j \<in> set order then g (xs ! j) else xs ! j))"
proof (induction order arbitrary: xs)
  case Nil
  show ?case by simp
next
  case (Cons i rest)
  have d: "distinct rest" and ni: "i \<notin> set rest" using Cons.prems by simp_all
  note ih = Cons.IH [OF d, of "xs[i := g (xs ! i)]"]
  show ?case
  proof (intro conjI allI impI)
    show "length (fold (\<lambda>i xs. xs[i := g (xs ! i)]) (i # rest) xs) = length xs"
      using ih by simp
  next
    fix j assume j: "j < length xs"
    show "fold (\<lambda>i xs. xs[i := g (xs ! i)]) (i # rest) xs ! j =
        (if j \<in> set (i # rest) then g (xs ! j) else xs ! j)"
    proof (cases "j = i")
      case True
      then show ?thesis using ih j ni by simp
    next
      case False
      then show ?thesis using ih j by simp
    qed
  qed
qed

lemma fold_update_all:
  assumes "distinct order" and "set order = {..<length xs}"
  shows "fold (\<lambda>i xs. xs[i := g (xs ! i)]) order xs = map g xs"
  using fold_update_nth [OF assms(1), of g xs] assms(2)
  by (simp add: list_eq_iff_nth_eq)

lemma rename_input_at_update:
  "rename_input_at d i inp =
     inp[i := (case map_of d (inp ! i) of Some new_name \<Rightarrow> new_name | None \<Rightarrow> inp ! i)]"
  by (simp add: rename_input_at_def split: option.splits)

lemma rename_node_inputs_map:
  "rename_node_inputs d n =
     n\<lparr>np_input := map (\<lambda>name. case map_of d name of Some new_name \<Rightarrow> new_name | None \<Rightarrow> name)
                       (np_input n)\<rparr>"
proof -
  let ?g = "\<lambda>name. case map_of d name of Some new_name \<Rightarrow> new_name | None \<Rightarrow> name"
  have "rename_input_at d = (\<lambda>i xs. xs[i := ?g (xs ! i)])"
    by (intro ext) (simp add: rename_input_at_update)
  moreover have "fold (\<lambda>i xs. xs[i := ?g (xs ! i)]) [0..<length (np_input n)] (np_input n) =
      map ?g (np_input n)"
    by (rule fold_update_all) (simp_all add: atLeast0LessThan)
  ultimately show ?thesis
    by (simp add: rename_node_inputs_def)
qed

lemma visit_nodes_map:
  assumes "distinct order" and "set order = {..<length nodes}"
  shows "visit_nodes d order nodes = map (rename_node_inputs d) nodes"
  unfolding visit_nodes_def using assms by (rule fold_update_all)

lemma reconcile_names_in_order_eq:
  assumes "distinct order" and "set order = {..<length (graph_node m)}"
  shows "reconcile_names_in_order order m =
     m\<lparr>graph_initializer := fst (rename_initializers (graph_initializer m) []),
       graph_node := map (rename_node_inputs (snd (rename_initializers (graph_initializer m) [])))
                       (graph_node m)\<rparr>"
  by (simp add: reconcile_names_in_order_def Let_def visit_nodes_map [OF assms])

lemma reconcile_names_eq:
  "reconcile_names m =
     m\<lparr>graph_initializer := fst (rename_initializers (graph_initializer m) []),
       graph_node := map (rename_node_inputs (snd (rename_initializers (graph_initializer m) [])))
                       (graph_node m)\<rparr>"
  unfolding reconcile_names_def
  by (rule reconcile_names_in_order_eq) (simp_all add: atLeast0LessThan)

text \<open>
  Claim C6. After the renaming with the prefix \<^verbatim>\<open>model_.\<close>, every initializer whose name
  started with the prefix carries the name without it and every other initializer is
  as it was; every node input equal to the old name of such an initializer is the name
  without the prefix and every other node input is as it was; operator types and node
  outputs are untouched. Visiting the nodes in any order that takes each node once
  gives the same model.
\<close>

theorem reconcile_names_renames:
  "graph_initializer (reconcile_names m) =
     map (\<lambda>n. if startswith (tp_name n) ''model_.''
              then n\<lparr>tp_name := drop (length ''model_.'') (tp_name n)\<rparr> else n)
         (graph_initializer m)
   \<and> graph_node (reconcile_names m) =
       map (\<lambda>nd. nd\<lparr>np_input :=
                    map (\<lambda>name. if name \<in> tp_name ` set (graph_initializer m) \<and>
                                   startswith name ''model_.''
                                then drop (length ''model_.'') name else name)
                        (np_input nd)\<rparr>)
           (graph_node m)
   \<and> (\<forall>order. distinct order \<and> set order = {..<length (graph_node m)} \<longrightarrow>
         reconcile_names_in_order order m = reconcile_names m)"
proof (intro conjI allI impI)
  show "graph_initializer (reconcile_names m) =
     map (\<lambda>n. if startswith (tp_name n) ''model_.''
              then n\<lparr>tp_name := drop (length ''model_.'') (tp_name n)\<rparr> else n)
         (graph_initializer m)"
    by (simp add: reconcile_names_eq fst_rename_initializers)
next
  have "rename_node_inputs (snd (rename_initializers (graph_initializer m) [])) =
      (\<lambda>nd. nd\<lparr>np_input :=
                    map (\<lambda>name. if name \<in> tp_name ` set (graph_initializer m) \<and>
                                   startswith name ''model_.''
                                then drop (length ''model_.'') name else name)
                        (np_input nd)\<rparr>)"
    by (intro ext) (simp add: rename_node_inputs_map map_of_snd_rename_initializers)
  then show "graph_node (reconcile_names m) =
       map (\<lambda>nd. nd\<lparr>np_input :=
                    map (\<lambda>name. if name \<in> tp_name ` set (graph_initializer m) \<and>
                                   startswith name ''model_.''
                                then drop (length ''model_.'') name else name)
                        (np_input nd)\<rparr>)
           (graph_node m)"
    by (simp add: reconcile_names_eq)
next
  fix order assume "distinct order \<and> set order = {..<length (graph_node m)}"
  then show "reconcile_names_in_order order m = reconcile_names m"
    by (simp add: reconcile_names_in_order_eq reconcile_names_eq)
qed

theorem reconcile_names_renames_witness:
  "map tp_name (graph_initializer (reconcile_names example_graph)) = [''weight'', ''bias'', ''step'']
   \<and> map np_input (graph_node (reconcile_names example_graph)) =
       [[''x'', ''weight''], [''h'', ''bias''], [''y'', ''model_.scale'']]
   \<and> reconcile_names_in_order [2, 0, 1] example_graph = reconcile_names example_graph"
proof -
  note th = reconcile_names_renames [of example_graph]
  have o: "distinct [2, 0, 1 :: nat] \<and> set [2, 0, 1] = {..<length (graph_node example_graph)}"
    by (auto simp: example_graph_def)
  have a: "map tp_name (graph_initializer (reconcile_names example_graph)) =
      [''weight'', ''bias'', ''step'']"
    using th by (simp add: example_graph_def startswith_def)
  have b: "map np_input (graph_node (reconcile_names example_graph)) =
      [[''x'', ''weight''], [''h'', ''bias''], [''y'', ''model_.scale'']]"
    using th by (simp add: example_graph_def startswith_def)
  have c: "reconcile_names_in_order [2, 0, 1] example_graph = reconcile_names example_graph"
    using th o by blast
  from a b c show ?thesis by simp
qed

text \<open>
  Claim C7, as amended. After the renaming, the export raises \<^verbatim>\<open>AssertionError\<close> when
  some named parameter of the module is not the name of an initializer, and goes on
  with the renamed model when all of them are. The message of the assertion is one
  fixed text; it does not depend on the parameters that are missing.
\<close>

theorem reconcile_checks_initializers:
  "reconcile model g =
     (if set (named_parameters model) \<subseteq> tp_name ` set (graph_initializer (reconcile_names g))
      then Inr (reconcile_names g)
      else Inl (AssertionError initializer_mismatch))"
  by (simp add: reconcile_def check_initializer_names_def Let_def)

text \<open>
  The claim as first stated has the message name the missing parameters. For a module
  with parameters \<^verbatim>\<open>weight\<close> and \<^verbatim>\<open>bias\<close> and a graph without initializers both are
  missing, and neither name occurs in the message.
\<close>

theorem initializer_mismatch_names_no_parameter:
  "reconcile example_module \<lparr>graph_initializer = [], graph_node = []\<rparr> =
     Inl (AssertionError initializer_mismatch)
   \<and> named_parameters example_module = [''weight'', ''bias'']
   \<and> \<not> is_substring ''weight'' initializer_mismatch
   \<and> \<not> is_substring ''bias'' initializer_mismatch"
  by (simp add: reconcile_def check_initializer_names_def Let_def reconcile_names_eq
      named_parameters_def example_module_def initializer_mismatch_def startswith_def)

section \<open>Properties of the trainer\<close>

lemma check_loss_fn_None: "is_None loss_fn \<Longrightarrow> check_loss_fn loss_fn = Inr ()"
  by (simp add: check_loss_fn_def)

lemma check_loss_fn_two:
  "py_callable loss_fn \<Longrightarrow> signature_parameters loss_fn = Inr 2 \<Longrightarrow>
   check_loss_fn loss_fn = Inr ()"
  by (cases loss_fn) (simp_all add: check_loss_fn_def)

lemma check_loss_fn_not_callable:
  "\<not> is_None loss_fn \<Longrightarrow> \<not> py_callable loss_fn \<Longrightarrow>
   check_loss_fn loss_fn = Inl (AssertionError loss_fn_two_parameters)"
  by (simp add: check_loss_fn_def)

lemma check_loss_fn_no_signature:
  "py_callable loss_fn \<Longrightarrow> signature_parameters loss_fn = Inl err \<Longrightarrow>
   check_loss_fn loss_fn = Inl err"
  by (cases loss_fn) (simp_all add: check_loss_fn_def)

lemma check_loss_fn_other_arity:
  "py_callable loss_fn \<Longrightarrow> signature_parameters loss_fn = Inr n \<Longrightarrow> n \<noteq> 2 \<Longrightarrow>
   check_loss_fn loss_fn = Inl (AssertionError loss_fn_two_parameters)"
  by (cases loss_fn) (simp_all add: check_loss_fn_def)

lemma not_None_if_callable: "py_callable v \<Longrightarrow> \<not> is_None v"
  by (cases v) simp_all

lemma ORTTrainer_init_module:
  assumes "ORTTrainer_init e (PyModule m) model_desc optim_config loss_fn options = Inr self"
  shows "\<exists>d. self =
           [(''_torch_model'', PyModule m), (''_onnx_model'', PyNone), (''_loss_fn'', loss_fn),
            (''model_desc'', PyModelDesc d), (''optim_config'', optim_config),
            (''options'', make_options e options)]"
  using assms
  by (auto simp: ORTTrainer_init_def bind_model_def split: if_splits sum.splits)

lemma train_step_on_module_trainer:
  assumes "ORTTrainer_init e (PyModule m) model_desc optim_config loss_fn options = Inr self"
  shows "train_step e input (self, trace) = (Inl (AttributeError ''torch_model_''), self, trace)"
proof -
  obtain d where "self =
           [(''_torch_model'', PyModule m), (''_onnx_model'', PyNone), (''_loss_fn'', loss_fn),
            (''model_desc'', PyModelDesc d), (''optim_config'', optim_config),
            (''options'', make_options e options)]"
    using ORTTrainer_init_module [OF assms] by blast
  then show ?thesis
    by (simp add: train_step_def init_onnx_model_def convert_the_model_def bnd_def getattr_def)
qed

text \<open>
  Claim C3, as amended. Let the descriptor be a dict that validates, the optimizer
  configuration be one, and the options be \<^verbatim>\<open>None\<close> or options. A \<^verbatim>\<open>None\<close> model is
  rejected by the first assertion. Whatever the model, a loss function that is given
  and is not callable, or is callable with a number of parameters other than two, is
  rejected by the assertion about \<^verbatim>\<open>loss_fn\<close>, and a callable whose signature cannot be
  read makes the constructor raise the \<^verbatim>\<open>ValueError\<close> of \<^verbatim>\<open>inspect.signature\<close>.
  Otherwise, the loss function being absent or a callable with two parameters: a module
  is accepted and stored with the loss function; an ONNX model with no loss function
  is accepted; an ONNX model with a loss function is rejected by the assertion that no
  loss function goes with an ONNX model; and a model that is neither is rejected with
  \<^verbatim>\<open>ValueError\<close>.
\<close>

theorem ORTTrainer_init_combinations:
  assumes "is_dict model_desc" and "is_optimizer_config optim_config"
    and "is_None options \<or> is_options options"
    and "validate_model_desc e model_desc = Inr d"
  shows "(is_None model \<longrightarrow>
            ORTTrainer_init e model model_desc optim_config loss_fn options =
              Inl (AssertionError model_required))
       \<and> (\<not> is_None model \<and> \<not> is_None loss_fn \<and> \<not> py_callable loss_fn \<longrightarrow>
            ORTTrainer_init e model model_desc optim_config loss_fn options =
              Inl (AssertionError loss_fn_two_parameters))
       \<and> (\<not> is_None model \<and> py_callable loss_fn \<and> signature_parameters loss_fn = Inr n \<and>
          n \<noteq> 2 \<longrightarrow>
            ORTTrainer_init e model model_desc optim_config loss_fn options =
              Inl (AssertionError loss_fn_two_parameters))
       \<and> (\<not> is_None model \<and> py_callable loss_fn \<and> signature_parameters loss_fn = Inl err \<longrightarrow>
            ORTTrainer_init e model model_desc optim_config loss_fn options = Inl err)
       \<and> (is_module model \<and>
          (is_None loss_fn \<or> py_callable loss_fn \<and> signature_parameters loss_fn = Inr 2) \<longrightarrow>
            ORTTrainer_init e model model_desc optim_config loss_fn options =
              Inr [(''_torch_model'', model), (''_onnx_model'', PyNone), (''_loss_fn'', loss_fn),
                   (''model_desc'', PyModelDesc d), (''optim_config'', optim_config),
                   (''options'', make_options e options)])
       \<and> (is_onnx model \<and> is_None loss_fn \<longrightarrow>
            ORTTrainer_init e model model_desc optim_config loss_fn options =
              Inr [(''_torch_model'', PyNone), (''_onnx_model'', model), (''_loss_fn'', PyNone),
                   (''model_desc'', PyModelDesc d), (''optim_config'', optim_config),
                   (''options'', make_options e options)])
       \<and> (is_onnx model \<and> py_callable loss_fn \<and> signature_parameters loss_fn = Inr 2 \<longrightarrow>
            ORTTrainer_init e model model_desc optim_config loss_fn options =
              Inl (AssertionError loss_fn_with_onnx_model))
       \<and> (\<not> is_None model \<and> \<not> is_module model \<and> \<not> is_onnx model \<and>
          (is_None loss_fn \<or> py_callable loss_fn \<and> signature_parameters loss_fn = Inr 2) \<longrightarrow>
            ORTTrainer_init e model model_desc optim_config loss_fn options =
              Inl (ValueError unknown_model_type))"
proof (intro conjI impI)
  assume "is_None model"
  then show "ORTTrainer_init e model model_desc optim_config loss_fn options =
      Inl (AssertionError model_required)"
    by (simp add: ORTTrainer_init_def)
next
  assume "\<not> is_None model \<and> \<not> is_None loss_fn \<and> \<not> py_callable loss_fn"
  then show "ORTTrainer_init e model model_desc optim_config loss_fn options =
      Inl (AssertionError loss_fn_two_parameters)"
    using assms by (simp add: ORTTrainer_init_def check_loss_fn_not_callable)
next
  assume "\<not> is_None model \<and> py_callable loss_fn \<and> signature_parameters loss_fn = Inr n \<and> n \<noteq> 2"
  then show "ORTTrainer_init e model model_desc optim_config loss_fn options =
      Inl (AssertionError loss_fn_two_parameters)"
    using assms check_loss_fn_other_arity [of loss_fn n] by (simp add: ORTTrainer_init_def)
next
  assume "\<not> is_None model \<and> py_callable loss_fn \<and> signature_parameters loss_fn = Inl err"
  then show "ORTTrainer_init e model model_desc optim_config loss_fn options = Inl err"
    using assms check_loss_fn_no_signature [of loss_fn err] by (simp add: ORTTrainer_init_def)
next
  assume a: "is_module model \<and>
      (is_None loss_fn \<or> py_callable loss_fn \<and> signature_parameters loss_fn = Inr 2)"
  then have "\<not> is_None model" by (cases model) simp_all
  moreover have "check_loss_fn loss_fn = Inr ()"
    using a check_loss_fn_None check_loss_fn_two by blast
  ultimately show "ORTTrainer_init e model model_desc optim_config loss_fn options =
      Inr [(''_torch_model'', model), (''_onnx_model'', PyNone), (''_loss_fn'', loss_fn),
           (''model_desc'', PyModelDesc d), (''optim_config'', optim_config),
           (''options'', make_options e options)]"
    using assms a by (simp add: ORTTrainer_init_def bind_model_def)
next
  assume a: "is_onnx model \<and> is_None loss_fn"
  then have "\<not> is_None model" and "\<not> is_module model" by (cases model; simp)+
  then show "ORTTrainer_init e model model_desc optim_config loss_fn options =
      Inr [(''_torch_model'', PyNone), (''_onnx_model'', model), (''_loss_fn'', PyNone),
           (''model_desc'', PyModelDesc d), (''optim_config'', optim_config),
           (''options'', make_options e options)]"
    using assms a by (simp add: ORTTrainer_init_def bind_model_def check_loss_fn_None)
next
  assume a: "is_onnx model \<and> py_callable loss_fn \<and> signature_parameters loss_fn = Inr 2"
  then have "\<not> is_None model" and "\<not> is_module model" by (cases model; simp)+
  moreover have "\<not> is_None loss_fn" using a not_None_if_callable by blast
  moreover have "check_loss_fn loss_fn = Inr ()" using a check_loss_fn_two by blast
  ultimately show "ORTTrainer_init e model model_desc optim_config loss_fn options =
      Inl (AssertionError loss_fn_with_onnx_model)"
    using assms a by (simp add: ORTTrainer_init_def bind_model_def)
next
  assume a: "\<not> is_None model \<and> \<not> is_module model \<and> \<not> is_onnx model \<and>
      (is_None loss_fn \<or> py_callable loss_fn \<and> signature_parameters loss_fn = Inr 2)"
  then have "check_loss_fn loss_fn = Inr ()"
    using check_loss_fn_None check_loss_fn_two by blast
  then show "ORTTrainer_init e model model_desc optim_config loss_fn options =
      Inl (ValueError unknown_model_type)"
    using assms a by (simp add: ORTTrainer_init_def bind_model_def)
qed

theorem ORTTrainer_init_combinations_witness:
  "ORTTrainer_init example_env (PyModule example_module) (PyDict []) (PyOptimizerConfig ''SGD'')
     PyNone PyNone = Inr example_trainer
   \<and> ORTTrainer_init example_env (PyModule example_module) (PyDict [])
       (PyOptimizerConfig ''SGD'') (PyCallable (Inr 2)) PyNone =
       Inr (AList.update ''_loss_fn'' (PyCallable (Inr 2)) example_trainer)
   \<and> ORTTrainer_init example_env (PyModule example_module) (PyDict [])
       (PyOptimizerConfig ''SGD'') (PyModule example_module) PyNone =
       Inr (AList.update ''_loss_fn'' (PyModule example_module) example_trainer)
   \<and> ORTTrainer_init example_env (PyOnnx example_graph) (PyDict []) (PyOptimizerConfig ''SGD'')
       PyNone PyNone = Inr example_onnx_trainer
   \<and> ORTTrainer_init example_env (PyOnnx example_graph) (PyDict []) (PyOptimizerConfig ''SGD'')
       (PyCallable (Inr 2)) PyNone = Inl (AssertionError loss_fn_with_onnx_model)
   \<and> ORTTrainer_init example_env (PyStr ''resnet'') (PyDict []) (PyOptimizerConfig ''SGD'')
       PyNone PyNone = Inl (ValueError unknown_model_type)
   \<and> ORTTrainer_init example_env PyNone (PyDict []) (PyOptimizerConfig ''SGD'')
       PyNone PyNone = Inl (AssertionError model_required)
   \<and> ORTTrainer_init example_env (PyModule example_module) (PyDict [])
       (PyOptimizerConfig ''SGD'') (PyInt 5) PyNone =
       Inl (AssertionError loss_fn_two_parameters)
   \<and> ORTTrainer_init example_env (PyModule example_module) (PyDict [])
       (PyOptimizerConfig ''SGD'') (PyCallable (Inr 3)) PyNone =
       Inl (AssertionError loss_fn_two_parameters)
   \<and> ORTTrainer_init example_env (PyModule example_module) (PyDict [])
       (PyOptimizerConfig ''SGD'') (PyCallable (Inl ''no signature found'')) PyNone =
       Inl (ValueError ''no signature found'')"
proof -
  have v: "validate_model_desc example_env (PyDict []) = Inr example_desc"
    and o: "make_options example_env PyNone = PyOptions []"
    by (simp_all add: example_env_def)
  note c = ORTTrainer_init_combinations
    [where e = example_env and model_desc = "PyDict []"
       and optim_config = "PyOptimizerConfig ''SGD''" and options = PyNone
       and d = example_desc, OF _ _ _ v]
  have 1: "ORTTrainer_init example_env (PyModule example_module) (PyDict [])
      (PyOptimizerConfig ''SGD'') PyNone PyNone = Inr example_trainer"
    using c [where model = "PyModule example_module" and loss_fn = PyNone]
    by (simp add: o example_trainer_def)
  have 2: "ORTTrainer_init example_env (PyModule example_module) (PyDict [])
      (PyOptimizerConfig ''SGD'') (PyCallable (Inr 2)) PyNone =
      Inr (AList.update ''_loss_fn'' (PyCallable (Inr 2)) example_trainer)"
    using c [where model = "PyModule example_module" and loss_fn = "PyCallable (Inr 2)"]
    by (simp add: o example_trainer_def)
  have 3: "ORTTrainer_init example_env (PyModule example_module) (PyDict [])
      (PyOptimizerConfig ''SGD'') (PyModule example_module) PyNone =
      Inr (AList.update ''_loss_fn'' (PyModule example_module) example_trainer)"
    using c [where model = "PyModule example_module" and loss_fn = "PyModule example_module"]
    by (simp add: o example_trainer_def)
  have 4: "ORTTrainer_init example_env (PyOnnx example_graph) (PyDict [])
      (PyOptimizerConfig ''SGD'') PyNone PyNone = Inr example_onnx_trainer"
    using c [where model = "PyOnnx example_graph" and loss_fn = PyNone]
    by (simp add: o example_onnx_trainer_def)
  have 5: "ORTTrainer_init example_env (PyOnnx example_graph) (PyDict [])
      (PyOptimizerConfig ''SGD'') (PyCallable (Inr 2)) PyNone =
      Inl (AssertionError loss_fn_with_onnx_model)"
    using c [where model = "PyOnnx example_graph" and loss_fn = "PyCallable (Inr 2)"] by simp
  have 6: "ORTTrainer_init example_env (PyStr ''resnet'') (PyDict [])
      (PyOptimizerConfig ''SGD'') PyNone PyNone = Inl (ValueError unknown_model_type)"
    using c [where model = "PyStr ''resnet''" and loss_fn = PyNone] by simp
  have 7: "ORTTrainer_init example_env PyNone (PyDict []) (PyOptimizerConfig ''SGD'')
      PyNone PyNone = Inl (AssertionError model_required)"
    using c [where model = PyNone and loss_fn = PyNone] by simp
  have 8: "ORTTrainer_init example_env (PyModule example_module) (PyDict [])
      (PyOptimizerConfig ''SGD'') (PyInt 5) PyNone =
      Inl (AssertionError loss_fn_two_parameters)"
    using c [where model = "PyModule example_module" and loss_fn = "PyInt 5"] by simp
  have 9: "ORTTrainer_init example_env (PyModule example_module) (PyDict [])
      (PyOptimizerConfig ''SGD'') (PyCallable (Inr 3)) PyNone =
      Inl (AssertionError loss_fn_two_parameters)"
    using c [where model = "PyModule example_module" and loss_fn = "PyCallable (Inr 3)"
        and n = 3] by simp
  have 10: "ORTTrainer_init example_env (PyModule example_module) (PyDict [])
      (PyOptimizerConfig ''SGD'') (PyCallable (Inl ''no signature found'')) PyNone =
      Inl (ValueError ''no signature found'')"
    using c [where model = "PyModule example_module"
        and loss_fn = "PyCallable (Inl ''no signature found'')"
        and err = "ValueError ''no signature found''"] by simp
  from 1 2 3 4 5 6 7 8 9 10 show ?thesis by simp
qed

text \<open>
  The claim as first stated gives the rejection by the kind of model alone. With a
  callable of three parameters as loss function, an ONNX model and a string as model
  are both rejected by the assertion about \<^verbatim>\<open>loss_fn\<close>, not by the assertion about ONNX
  models and not with \<^verbatim>\<open>ValueError\<close>.
\<close>

theorem ORTTrainer_init_checks_loss_fn_first:
  "ORTTrainer_init example_env (PyOnnx example_graph) (PyDict []) (PyOptimizerConfig ''SGD'')
     (PyCallable (Inr 3)) PyNone = Inl (AssertionError loss_fn_two_parameters)
   \<and> ORTTrainer_init example_env (PyStr ''resnet'') (PyDict []) (PyOptimizerConfig ''SGD'')
       (PyCallable (Inr 3)) PyNone = Inl (AssertionError loss_fn_two_parameters)
   \<and> \<not> is_None (PyCallable (Inr 3))
   \<and> \<not> is_module (PyStr ''resnet'') \<and> \<not> is_onnx (PyStr ''resnet'')
   \<and> loss_fn_two_parameters \<noteq> loss_fn_with_onnx_model
   \<and> AssertionError loss_fn_two_parameters \<noteq> ValueError unknown_model_type"
  by (simp add: ORTTrainer_init_def check_loss_fn_def loss_fn_two_parameters_def
      loss_fn_with_onnx_model_def)

text \<open>
  Claim C2, on the code. The docstring of \<^verbatim>\<open>save_as_onnx\<close> says that it persists the
  ONNX model into \<^verbatim>\<open>path\<close>; its body is \<^verbatim>\<open>pass\<close>. On the trainer built from an ONNX
  model a step returns, the graph is stored under \<^verbatim>\<open>_onnx_model\<close>, and the call of
  \<^verbatim>\<open>save_as_onnx\<close> returns with the trace of calls that leave the file still empty:
  nothing has been serialized or written. On the trainer fresh from the constructor,
  which holds no graph, the call returns in the same way instead of failing.
\<close>

theorem save_as_onnx_writes_nothing:
  "train_step example_env [PyInputs (InTensor example_tensor)] (example_onnx_trainer, []) =
     (Inr (), example_onnx_trainer, [])
   \<and> map_of example_onnx_trainer ''_onnx_model'' = Some (PyOnnx example_graph)
   \<and> save_as_onnx ''model.onnx'' (example_onnx_trainer, []) = (Inr (), example_onnx_trainer, [])
   \<and> map_of example_trainer ''_onnx_model'' = Some PyNone
   \<and> save_as_onnx ''model.onnx'' (example_trainer, []) = (Inr (), example_trainer, [])"
  by (simp add: train_step_def bnd_def getattr_def ret_def save_as_onnx_def
      example_onnx_trainer_def example_trainer_def)

lemma train_steps_on_module_trainer:
  assumes "ORTTrainer_init e (PyModule m) model_desc optim_config loss_fn options = Inr self"
  shows "train_steps e inputs (self, trace) = (self, trace)"
  by (induction inputs) (simp_all add: train_step_on_module_trainer [OF assms])

text \<open>
  No statement of the lazy build or of \<^verbatim>\<open>train_step\<close> assigns \<^verbatim>\<open>_onnx_model\<close>, the
  attribute both guards read: line 271 assigns \<^verbatim>\<open>onnx_model\<close> and line 275
  \<^verbatim>\<open>_onnx_model_\<close>. A trainer that enters the lazy build once enters it at every step.
\<close>

lemma bnd_keeps:
  assumes "\<And>s. map_of (fst (snd (m s))) a = map_of (fst s) a"
    and "\<And>x s. map_of (fst (snd (f x s))) a = map_of (fst s) a"
  shows "map_of (fst (snd (bnd m f s))) a = map_of (fst s) a"
proof -
  obtain r s' where ms: "m s = (r, s')" by (metis surj_pair)
  then have "map_of (fst s') a = map_of (fst s) a" using assms(1) [of s] by simp
  then show ?thesis using ms assms(2) by (cases r) (simp_all add: bnd_def)
qed

lemma ret_keeps: "map_of (fst (snd (ret x s))) a = map_of (fst s) a"
  by (simp add: ret_def)

lemma raise_keeps: "map_of (fst (snd (raise err s))) a = map_of (fst s) a"
  by (simp add: raise_def)

lemma emit_keeps: "map_of (fst (snd (emit ev s))) a = map_of (fst s) a"
  by (simp add: emit_def)

lemma getattr_keeps: "map_of (fst (snd (getattr n s))) a = map_of (fst s) a"
  by (simp add: getattr_def split: option.splits)

lemma setattr_keeps: "n \<noteq> a \<Longrightarrow> map_of (fst (snd (setattr n v s))) a = map_of (fst s) a"
  by (simp add: setattr_def update_conv')

lemma call_cpu_keeps: "map_of (fst (snd (call_cpu v s))) a = map_of (fst s) a"
  by (cases v) (simp_all add: emit_keeps raise_keeps)

lemma global_name_inputs_keeps: "map_of (fst (snd (global_name_inputs e s))) a = map_of (fst s) a"
  by (simp add: global_name_inputs_def ret_keeps raise_keeps split: option.splits)

lemma call_convert_keeps: "map_of (fst (snd (call_convert e args kwargs s))) a = map_of (fst s) a"
  by (simp add: call_convert_def split: prod.splits)

lemma call_run_postprocess_keeps:
  "map_of (fst (snd (call_run_postprocess e v s))) a = map_of (fst s) a"
  by (cases v) (simp_all add: raise_keeps bnd_keeps emit_keeps ret_keeps)

lemma call_extra_postprocess_keeps:
  "map_of (fst (snd (call_extra_postprocess f v s))) a = map_of (fst s) a"
  by (cases f) (simp_all add: raise_keeps emit_keeps)

lemma call_verify_keeps:
  "map_of (fst (snd (call_verify f v s))) a = map_of (fst s) a"
  by (cases f) (simp_all add: raise_keeps emit_keeps)

lemmas keeps =
  ret_keeps raise_keeps emit_keeps getattr_keeps call_cpu_keeps global_name_inputs_keeps
  call_convert_keeps call_run_postprocess_keeps call_extra_postprocess_keeps call_verify_keeps

lemma convert_the_model_keeps:
  "map_of (fst (snd (convert_the_model e s))) ''_onnx_model'' = map_of (fst s) ''_onnx_model''"
  unfolding convert_the_model_def
  by (intro bnd_keeps) (simp_all add: keeps setattr_keeps)

lemma selected_tasks_keeps:
  "map_of (fst (snd (selected_tasks e s))) ''_onnx_model'' = map_of (fst s) ''_onnx_model''"
proof -
  have a: "map_of (fst (snd (bnd (getattr ''onnx_model_'') (\<lambda>g.
               bnd (call_run_postprocess e g) (\<lambda>p. setattr ''_onnx_model_'' p)) s)))
             ''_onnx_model'' = map_of (fst s) ''_onnx_model''" for s
    by (intro bnd_keeps) (simp_all add: keeps setattr_keeps)
  have b: "map_of (fst (snd (bnd (getattr ''_extra_postprocess'') (\<lambda>f.
               bnd (getattr ''onnx_model_'') (\<lambda>g. call_extra_postprocess f g)) s)))
             ''_onnx_model'' = map_of (fst s) ''_onnx_model''" for s
    by (intro bnd_keeps) (simp_all add: keeps)
  show ?thesis
    unfolding selected_tasks_def
    by (intro bnd_keeps) (simp_all add: keeps a b)
qed

lemma init_onnx_model_keeps:
  "map_of (fst (snd (init_onnx_model e input s))) ''_onnx_model'' = map_of (fst s) ''_onnx_model''"
proof -
  have a: "map_of (fst (snd (bnd (convert_the_model e) (\<lambda>u. selected_tasks e) s)))
             ''_onnx_model'' = map_of (fst s) ''_onnx_model''" for s
    by (intro bnd_keeps) (simp_all add: convert_the_model_keeps selected_tasks_keeps)
  have b: "map_of (fst (snd (bnd (getattr ''_torch_model'') (\<lambda>torch_model.
               if \<not> is_None torch_model
               then bnd (convert_the_model e) (\<lambda>u. selected_tasks e) else ret ()) s)))
             ''_onnx_model'' = map_of (fst s) ''_onnx_model''" for s
    by (intro bnd_keeps) (simp_all add: keeps a)
  show ?thesis
    unfolding init_onnx_model_def
    by (intro bnd_keeps) (simp_all add: keeps b)
qed

lemma train_step_keeps_onnx_model:
  "map_of (fst (snd (train_step e input s))) ''_onnx_model'' = map_of (fst s) ''_onnx_model''"
  unfolding train_step_def
  by (intro bnd_keeps) (simp_all add: keeps init_onnx_model_keeps)

lemma train_step_enters_lazy_build:
  "map_of (fst s) ''_onnx_model'' = Some PyNone \<Longrightarrow>
   train_step e input s = init_onnx_model e input s"
  by (simp add: train_step_def bnd_def getattr_def)

text \<open>
  Claim C1, on the code. On a trainer that the constructor built from a module, a call
  of \<^verbatim>\<open>train_step\<close> enters the lazy build and raises \<^verbatim>\<open>AttributeError\<close> on line 268,
  where \<^verbatim>\<open>self.torch_model_\<close> is read and the constructor has assigned
  \<^verbatim>\<open>self._torch_model\<close>. The trainer and the trace are unchanged, so any number of
  calls leaves the count of export calls where it was: the export routine runs in
  none of them, where the claim has it run in the first.
\<close>

theorem train_step_never_builds:
  assumes "ORTTrainer_init e (PyModule m) model_desc optim_config loss_fn options = Inr self"
  shows "train_step e input (self, trace) = (Inl (AttributeError ''torch_model_''), self, trace)
       \<and> train_steps e inputs (self, trace) = (self, trace)
       \<and> export_count (snd (train_steps e inputs (self, trace))) = export_count trace"
  by (simp add: train_step_on_module_trainer [OF assms] train_steps_on_module_trainer [OF assms])

theorem train_step_never_builds_witness:
  "ORTTrainer_init example_env (PyModule example_module) (PyDict []) (PyOptimizerConfig ''SGD'')
     PyNone PyNone = Inr example_trainer
   \<and> train_step example_env [PyInputs (InTensor example_tensor)] (example_trainer, []) =
       (Inl (AttributeError ''torch_model_''), example_trainer, [])
   \<and> export_count (snd (train_steps example_env
        [[PyInputs (InTensor example_tensor)], [PyInputs (InTensor example_tensor)]]
        (example_trainer, []))) = 0"
proof -
  have i: "ORTTrainer_init example_env (PyModule example_module) (PyDict [])
      (PyOptimizerConfig ''SGD'') PyNone PyNone = Inr example_trainer"
    by (simp add: ORTTrainer_init_def check_loss_fn_def bind_model_def example_env_def
        example_trainer_def)
  show ?thesis
    using i train_step_never_builds [OF i, of "[PyInputs (InTensor example_tensor)]" "[]"
      "[[PyInputs (InTensor example_tensor)], [PyInputs (InTensor example_tensor)]]"]
    by (simp add: export_count_def)
qed

end
